theory Spec2Isabelle
  imports Main "HOL-Library.Word" "HOL-Library.Sublist"
begin

section \<open>Errors and results\<close>

text \<open>
  A Go \<^verbatim>\<open>error\<close> value. Vendor (AWS SDK) errors implement \<^verbatim>\<open>awserr.Error\<close> and carry
  a code and a message; \<^verbatim>\<open>ERR_NODEGROUP_EXIST\<close> and \<^verbatim>\<open>ERR_NO_NODEGROUP\<close> are the two
  package-level sentinels of the AWS controller; \<open>Errorf\<close> is an error built by
  \<^verbatim>\<open>fmt.Errorf\<close> or returned by the session factory (not an \<^verbatim>\<open>awserr.Error\<close>).
\<close>

datatype error =
    AwsErr string string
  | ERR_NODEGROUP_EXIST
  | ERR_NO_NODEGROUP
  | Errorf string

text \<open>\<^verbatim>\<open>err.Error()\<close>: the message of an error.\<close>

fun errorString :: "error \<Rightarrow> string" where
  "errorString (AwsErr code msg) = code @ '': '' @ msg"
| "errorString ERR_NODEGROUP_EXIST = ''nodegroup already exist''"
| "errorString ERR_NO_NODEGROUP = ''no nodegroup exist in cluster''"
| "errorString (Errorf msg) = msg"

text \<open>
  What a Go method returning \<^verbatim>\<open>(*T, error)\<close> does: it returns the pair (either
  component may be nil, and \<^verbatim>\<open>ClusterStatus\<close> and the delete operations return both
  non-nil), or it panics (a nil dereference, a failed type assertion, an index out of
  range).
\<close>

datatype 'a result = Return "'a option" "error option" | Panic

section \<open>Provider dispatcher\<close>

text \<open>
  \<^verbatim>\<open>const ProviderNotFound = "provider not found, must be one of ['aws', 'azure'], got %s"\<close>
  with the \<^verbatim>\<open>%s\<close> filled in by \<^verbatim>\<open>fmt.Errorf\<close>.
\<close>

definition ProviderNotFound :: "string \<Rightarrow> string" where
  "ProviderNotFound got =
     ''provider not found, must be one of ['' @ [CHR 0x27] @ ''aws'' @ [CHR 0x27] @ '', ''
       @ [CHR 0x27] @ ''azure'' @ [CHR 0x27] @ ''], got '' @ got"

text \<open>
  The sixteen methods of the \<^verbatim>\<open>Controller\<close> interface that \<^verbatim>\<open>spawnerService\<close> forwards
  to the controller of the request's provider.
\<close>

datatype operation =
    MCreateCluster | MGetCluster | MGetClusters | MAddToken | MGetToken
  | MClusterStatus | MAddNode | MDeleteCluster | MDeleteNode
  | MCreateVolume | MDeleteVolume | MCreateSnapshot | MCreateSnapshotAndDelete
  | MGetWorkspacesCost | MGetKubeConfig | MTagNodeInstance

text \<open>Every request of a dispatched operation carries these three fields.\<close>

record request =
  Provider :: string
  Region :: string
  AccountName :: string

text \<open>
  A controller (the \<^verbatim>\<open>Controller\<close> interface): each method takes the request and the
  state of the outside world \<open>'w\<close> and returns Go's \<^verbatim>\<open>(response, error)\<close> pair and the
  new state.
\<close>

type_synonym ('rq, 'rs, 'w) Controller =
  "operation \<Rightarrow> 'rq \<Rightarrow> 'w \<Rightarrow> ('rs option \<times> error option) \<times> 'w"

record 'c spawnerService =
  awsController :: 'c
  azureController :: 'c
  gcpController :: 'c

definition controller :: "'c spawnerService \<Rightarrow> string \<Rightarrow> error + 'c" where
  "controller s provider =
     (if provider = ''aws'' then Inr (awsController s)
      else if provider = ''azure'' then Inr (azureController s)
      else if provider = ''gcp'' then Inr (gcpController s)
      else Inl (Errorf (ProviderNotFound provider)))"

text \<open>
  The body shared by the sixteen forwarding methods (\<^verbatim>\<open>CreateCluster\<close> \<dots>
  \<^verbatim>\<open>TagNodeInstance\<close> of \<^verbatim>\<open>spawnerService\<close>):
  \<^verbatim>\<open>provider, err := s.controller(req.Provider); if err != nil { return nil, err };
  return provider.M(ctx, req)\<close>.
\<close>

definition dispatch ::
  "('a request_scheme, 'rs, 'w) Controller spawnerService \<Rightarrow> operation \<Rightarrow> 'a request_scheme
     \<Rightarrow> 'w \<Rightarrow> ('rs option \<times> error option) \<times> 'w" where
  "dispatch s m req w =
     (case controller s (Provider req) of
        Inl err \<Rightarrow> ((None, Some err), w)
      | Inr provider \<Rightarrow> provider m req w)"

section \<open>AWS controller: data\<close>

text \<open>
  The vendor's resource descriptors, restricted to the fields the controller reads. A Go
  pointer field is an \<open>option\<close> (\<open>None\<close> is nil). \<open>cl_ResourcesVpcConfig\<close> is the
  pointer \<^verbatim>\<open>ResourcesVpcConfig\<close>, holding its \<^verbatim>\<open>SubnetIds\<close>.
\<close>

record Cluster =
  cl_Name :: "string option"
  cl_Status :: "string option"
  cl_ResourcesVpcConfig :: "string list option"

record Nodegroup =
  ng_NodegroupName :: "string option"
  ng_Status :: "string option"
  ng_AmiType :: "string option"
  ng_CapacityType :: "string option"
  ng_NodeRole :: "string option"
  ng_ReleaseVersion :: "string option"
  ng_Subnets :: "string list"
  ng_InstanceTypes :: "string list option"
  ng_DiskSize :: "64 word option"
  ng_Labels :: "string \<rightharpoonup> string"

record Role =
  role_RoleName :: "string option"
  role_Arn :: "string option"

text \<open>
  \<^verbatim>\<open>pb.NodeSpec\<close>, with the fields the modelled operations touch. \<open>ns_Labels\<close> is the Go
  map \<^verbatim>\<open>map[string]string\<close> given as its entries in the order in which the \<^verbatim>\<open>range\<close>
  loops of this call visit them (Go leaves that order unspecified).
\<close>

record NodeSpec =
  ns_Name :: string
  ns_Instance :: string
  ns_DiskSize :: "32 word"
  ns_GpuEnabled :: bool
  ns_Labels :: "(string \<times> string) list"

record NodegroupScalingConfig =
  DesiredSize :: "64 word option"
  MinSize :: "64 word option"
  MaxSize :: "64 word option"

text \<open>
  \<^verbatim>\<open>eks.CreateNodegroupInput\<close>. \<open>in_Labels\<close> is the label map as the vendor receives it:
  every \<^verbatim>\<open>*string\<close> value read through its pointer once the input is complete.
\<close>

record CreateNodegroupInput =
  in_AmiType :: "string option"
  in_CapacityType :: "string option"
  in_NodeRole :: "string option"
  in_InstanceTypes :: "string list"
  in_ClusterName :: "string option"
  in_DiskSize :: "64 word option"
  in_NodegroupName :: "string option"
  in_ReleaseVersion :: "string option"
  in_Labels :: "string \<rightharpoonup> string"
  in_Subnets :: "string list"
  in_ScalingConfig :: "NodegroupScalingConfig option"

text \<open>Requests and responses (\<^verbatim>\<open>pb\<close> messages).\<close>

record ClusterRequest = request +
  ClusterName :: string

record NodeSpawnRequest = ClusterRequest +
  NodeSpec :: "NodeSpec option"

record NodeDeleteRequest = ClusterRequest +
  NodeGroupName :: string

record ClusterResponse =
  cr_ClusterName :: string

record ClusterStatusResponse =
  csr_Status :: string
  csr_Error :: string

record ClusterDeleteResponse =
  cdr_Error :: string

record NodeDeleteResponse =
  ndr_Error :: string

record ClusterSpec =
  cs_Name :: string
  cs_NodeSpec :: "NodeSpec list"

record KubeConfig =
  BearerToken :: string
  CAData :: string
  Host :: string

record GetTokenResponse =
  Token :: string
  CaData :: string
  Endpoint :: string

text \<open>
  The label keys and the creator value of package \<^verbatim>\<open>constants\<close>, which is not among the
  sources: they are parameters of the model.
\<close>

record Constants =
  CREATOR_LABEL :: string
  SPAWNER_SERVICE_LABEL :: string
  NODE_NAME_LABEL :: string
  NODE_LABEL_SELECTOR_LABEL :: string
  INSTANCE_LABEL :: string

definition AWS_NODE_GROUP_ROLE_NAME :: string where
  "AWS_NODE_GROUP_ROLE_NAME = ''netbook-AWS-NodeGroupInstanceRole-CAFE''"

definition EKS_WORKER_NODE_POLICY_ARN :: string where
  "EKS_WORKER_NODE_POLICY_ARN = ''arn:aws:iam::aws:policy/AmazonEKSWorkerNodePolicy''"

definition EKS_EC2_CONTAINER_RO_POLICY_ARN :: string where
  "EKS_EC2_CONTAINER_RO_POLICY_ARN = ''arn:aws:iam::aws:policy/AmazonEC2ContainerRegistryReadOnly''"

definition EKS_CNI_POLICY_ARN :: string where
  "EKS_CNI_POLICY_ARN = ''arn:aws:iam::aws:policy/AmazonEKS_CNI_Policy''"

definition EC2_ASSUME_ROLE_DOC :: string where
  "EC2_ASSUME_ROLE_DOC =
     ''{\"Version\":\"2012-10-17\",\"Statement\":[{\"Effect\":\"Allow\",\"Principal\":{\"Service\":[\"ec2.amazonaws.com\"]},\"Action\":[\"sts:AssumeRole\"]}]}''"

text \<open>\<^verbatim>\<open>eks.ErrCodeResourceNotFoundException\<close> and \<^verbatim>\<open>iam.ErrCodeNoSuchEntityException\<close>.\<close>

definition ErrCodeResourceNotFoundException :: string where
  "ErrCodeResourceNotFoundException = ''ResourceNotFoundException''"

definition ErrCodeNoSuchEntityException :: string where
  "ErrCodeNoSuchEntityException = ''NoSuchEntity''"

section \<open>AWS controller: the vendor boundary\<close>

text \<open>
  The calls that leave the controller, as they are recorded: the vendor SDK requests, and
  \<open>CallCreateClusterInternal\<close> for the controller's own create step
  \<^verbatim>\<open>createClusterInternal\<close>, whose body is not among the sources and inside which the
  vendor's create-cluster request is issued.
\<close>

datatype call =
    CallDescribeCluster string
  | CallCreateClusterInternal string
  | CallListClusters
  | CallListNodegroups string
  | CallDescribeNodegroup string string
  | CallGetRole string
  | CallCreateRole string
  | CallAttachRolePolicy string string
  | CallCreateNodegroup "CreateNodegroupInput option"
  | CallDeleteCluster string
  | CallDeleteNodegroup string string

text \<open>
  An SDK call returns Go's pair \<^verbatim>\<open>(out, err)\<close> and moves the vendor to its next state.
  The SDK's \<^verbatim>\<open>out\<close> is never nil; the payload pointer inside it (\<^verbatim>\<open>out.Cluster\<close>,
  \<^verbatim>\<open>out.Nodegroup\<close>, \<^verbatim>\<open>out.Role\<close>) is the \<open>option\<close>, and list payloads are lists.
\<close>

type_synonym ('a, 'w) sdk = "'w \<Rightarrow> ('a \<times> error option) \<times> 'w"

text \<open>
  Everything outside the controller. \<open>NewSession\<close> is the session factory for a region
  and an account (\<open>Some err\<close> when no session can be opened); \<open>createClusterInternal\<close>
  and \<open>getKubeConfig\<close> are the two helpers whose bodies are not among the sources; the
  others are the vendor's EKS and IAM requests.
\<close>

record 'w Vendor =
  NewSession :: "string \<Rightarrow> string \<Rightarrow> error option"
  DescribeClusterWithContext :: "string \<Rightarrow> (Cluster option, 'w) sdk"
  createClusterInternal :: "string \<Rightarrow> ClusterRequest \<Rightarrow> (Cluster option, 'w) sdk"
  ListClustersWithContext :: "(string list, 'w) sdk"
  ListNodegroupsWithContext :: "string \<Rightarrow> (string list, 'w) sdk"
  DescribeNodegroupWithContext :: "string \<Rightarrow> string \<Rightarrow> (Nodegroup option, 'w) sdk"
  GetRoleWithContext :: "string \<Rightarrow> (Role option, 'w) sdk"
  CreateRoleWithContext :: "string \<Rightarrow> string \<Rightarrow> string \<Rightarrow> (Role option, 'w) sdk"
  AttachRolePolicyWithContext :: "string \<Rightarrow> string \<Rightarrow> (unit, 'w) sdk"
  CreateNodegroupWithContext :: "CreateNodegroupInput option \<Rightarrow> (Nodegroup option, 'w) sdk"
  DeleteClusterWithContext :: "string \<Rightarrow> (Cluster option, 'w) sdk"
  DeleteNodegroupWithContext :: "string \<Rightarrow> string \<Rightarrow> (Nodegroup option, 'w) sdk"
  getKubeConfig :: "Cluster option \<Rightarrow> 'w \<Rightarrow> KubeConfig option \<times> error option"

text \<open>
  The state threaded through an operation: the vendor's state and the record of the calls
  issued so far, each with the error it returned (a test double that counts calls).
\<close>

record 'w state =
  calls :: "(call \<times> error option) list"
  world :: 'w

definition invoke :: "call \<Rightarrow> ('a, 'w) sdk \<Rightarrow> 'w state \<Rightarrow> ('a \<times> error option) \<times> 'w state" where
  "invoke c f s =
     (case f (world s) of
        ((out, err), w') \<Rightarrow> ((out, err), \<lparr>calls = calls s @ [(c, err)], world = w'\<rparr>))"

section \<open>AWS controller: clusters\<close>

text \<open>
  \<^verbatim>\<open>getClusterSpec\<close>: one describe request; it hands back \<^verbatim>\<open>resp.Cluster\<close> and the
  error as they come.
\<close>

definition getClusterSpec ::
  "'w Vendor \<Rightarrow> string \<Rightarrow> 'w state \<Rightarrow> (Cluster option \<times> error option) \<times> 'w state" where
  "getClusterSpec v name = invoke (CallDescribeCluster name) (DescribeClusterWithContext v name)"

text \<open>
  The last statement of \<^verbatim>\<open>CreateCluster\<close>:
  \<^verbatim>\<open>return &pb.ClusterResponse{ClusterName: *cluster.Name}, nil\<close>. Reading through a nil
  \<^verbatim>\<open>cluster\<close> or a nil \<^verbatim>\<open>Name\<close> panics.
\<close>

definition clusterResponse :: "Cluster option \<Rightarrow> ClusterResponse result" where
  "clusterResponse cluster =
     (case cluster of
        None \<Rightarrow> Panic
      | Some c \<Rightarrow>
          (case cl_Name c of
             None \<Rightarrow> Panic
           | Some n \<Rightarrow> Return (Some \<lparr>cr_ClusterName = n\<rparr>) None))"

text \<open>
  Lines 479 to 482 of \<^verbatim>\<open>CreateCluster\<close>: the requested name, or
  \<^verbatim>\<open>fmt.Sprintf("%s-%s", req.Provider, req.Region)\<close> when it is empty.
\<close>

definition clusterNameOrDefault :: "ClusterRequest \<Rightarrow> string" where
  "clusterNameOrDefault req =
     (if length (ClusterName req) = 0 then Provider req @ ''-'' @ Region req
      else ClusterName req)"

text \<open>
  \<^verbatim>\<open>AWSController.CreateCluster\<close>. The type assertion \<^verbatim>\<open>err.(awserr.Error)\<close> panics on an
  error of another type. When the describe error has another code than "resource not
  found", no branch returns: control reaches the final statement with the
  \<^verbatim>\<open>cluster\<close> that the describe call returned.
\<close>

definition CreateCluster ::
  "'w Vendor \<Rightarrow> ClusterRequest \<Rightarrow> 'w state \<Rightarrow> ClusterResponse result \<times> 'w state" where
  "CreateCluster v req s =
     (let clusterName = clusterNameOrDefault req
      in case NewSession v (Region req) (AccountName req) of
           Some err \<Rightarrow> (Return None (Some err), s)
         | None \<Rightarrow>
             (case getClusterSpec v clusterName s of
                ((cluster, None), s1) \<Rightarrow> (clusterResponse cluster, s1)
              | ((cluster, Some err), s1) \<Rightarrow>
                  (case err of
                     AwsErr code msg \<Rightarrow>
                       if code = ErrCodeResourceNotFoundException then
                         (case invoke (CallCreateClusterInternal clusterName)
                                 (createClusterInternal v clusterName req) s1 of
                            ((created, Some err'), s2) \<Rightarrow> (Return None (Some err'), s2)
                          | ((created, None), s2) \<Rightarrow> (clusterResponse created, s2))
                       else (clusterResponse cluster, s1)
                   | _ \<Rightarrow> (Panic, s1))))"

text \<open>\<^verbatim>\<open>AWSController.ClusterStatus\<close>.\<close>

definition ClusterStatus ::
  "'w Vendor \<Rightarrow> ClusterRequest \<Rightarrow> 'w state \<Rightarrow> ClusterStatusResponse result \<times> 'w state" where
  "ClusterStatus v req s =
     (case NewSession v (Region req) (AccountName req) of
        Some err \<Rightarrow> (Return None (Some err), s)
      | None \<Rightarrow>
          (case getClusterSpec v (ClusterName req) s of
             ((cluster, Some err), s1) \<Rightarrow>
               (Return (Some \<lparr>csr_Status = [], csr_Error = errorString err\<rparr>) (Some err), s1)
           | ((cluster, None), s1) \<Rightarrow>
               (case cluster of
                  None \<Rightarrow> (Panic, s1)
                | Some c \<Rightarrow>
                    (case cl_Status c of
                       None \<Rightarrow> (Panic, s1)
                     | Some st \<Rightarrow>
                         (Return (Some \<lparr>csr_Status = st, csr_Error = []\<rparr>) None, s1)))))"

text \<open>
  \<^verbatim>\<open>AWSController.DeleteCluster\<close>. On success the log line reads
  \<^verbatim>\<open>*deleteOut.Cluster.Status\<close>.
\<close>

definition DeleteCluster ::
  "'w Vendor \<Rightarrow> ClusterRequest \<Rightarrow> 'w state \<Rightarrow> ClusterDeleteResponse result \<times> 'w state" where
  "DeleteCluster v req s =
     (case NewSession v (Region req) (AccountName req) of
        Some err \<Rightarrow> (Return None (Some err), s)
      | None \<Rightarrow>
          (case invoke (CallDeleteCluster (ClusterName req))
                  (DeleteClusterWithContext v (ClusterName req)) s of
             ((deleteOut, Some err), s1) \<Rightarrow>
               (Return (Some \<lparr>cdr_Error = errorString err\<rparr>) (Some err), s1)
           | ((deleteOut, None), s1) \<Rightarrow>
               (case deleteOut of
                  None \<Rightarrow> (Panic, s1)
                | Some c \<Rightarrow>
                    (case cl_Status c of
                       None \<Rightarrow> (Panic, s1)
                     | Some st \<Rightarrow> (Return (Some \<lparr>cdr_Error = []\<rparr>) None, s1)))))"

text \<open>
  \<^verbatim>\<open>AWSController.DeleteNode\<close>. On success the log line reads
  \<^verbatim>\<open>*nodeDeleteOut.Nodegroup.Status\<close>.
\<close>

definition DeleteNode ::
  "'w Vendor \<Rightarrow> NodeDeleteRequest \<Rightarrow> 'w state \<Rightarrow> NodeDeleteResponse result \<times> 'w state" where
  "DeleteNode v req s =
     (case NewSession v (Region req) (AccountName req) of
        Some err \<Rightarrow> (Return None (Some err), s)
      | None \<Rightarrow>
          (case invoke (CallDeleteNodegroup (ClusterName req) (NodeGroupName req))
                  (DeleteNodegroupWithContext v (ClusterName req) (NodeGroupName req)) s of
             ((nodeDeleteOut, Some err), s1) \<Rightarrow>
               (Return (Some \<lparr>ndr_Error = errorString err\<rparr>) (Some err), s1)
           | ((nodeDeleteOut, None), s1) \<Rightarrow>
               (case nodeDeleteOut of
                  None \<Rightarrow> (Panic, s1)
                | Some ng \<Rightarrow>
                    (case ng_Status ng of
                       None \<Rightarrow> (Panic, s1)
                     | Some st \<Rightarrow> (Return (Some \<lparr>ndr_Error = []\<rparr>) None, s1)))))"

text \<open>
  \<^verbatim>\<open>AWSController.GetToken\<close>. The error of the describe call is overwritten by the next
  assignment to \<^verbatim>\<open>err\<close> without having been read.
\<close>

definition GetToken ::
  "'w Vendor \<Rightarrow> ClusterRequest \<Rightarrow> 'w state \<Rightarrow> GetTokenResponse result \<times> 'w state" where
  "GetToken v req s =
     (case NewSession v (Region req) (AccountName req) of
        Some err \<Rightarrow> (Return None (Some err), s)
      | None \<Rightarrow>
          (case getClusterSpec v (ClusterName req) s of
             ((cluster, ignored), s1) \<Rightarrow>
               (case getKubeConfig v cluster (world s1) of
                  (kubeConfig, Some err) \<Rightarrow> (Return None (Some err), s1)
                | (None, None) \<Rightarrow> (Panic, s1)
                | (Some k, None) \<Rightarrow>
                    (Return (Some \<lparr>Token = BearerToken k, CaData = CAData k,
                                   Endpoint = Host k\<rparr>) None, s1))))"

section \<open>AWS controller: listing\<close>

text \<open>
  The inner loop of \<^verbatim>\<open>GetClusters\<close> over the node groups of one cluster. The error of
  the describe request is logged and nothing else; the next statements read
  \<^verbatim>\<open>nodeGroupDetails.Nodegroup.InstanceTypes\<close> and \<^verbatim>\<open>.DiskSize\<close>, and
  \<^verbatim>\<open>InstanceTypes[0]\<close> when the slice is not nil. \<open>None\<close> is a panic.
\<close>

fun nodeGroupLoop ::
  "'w Vendor \<Rightarrow> string \<Rightarrow> string list \<Rightarrow> NodeSpec list \<Rightarrow> 'w state
     \<Rightarrow> NodeSpec list option \<times> 'w state" where
  "nodeGroupLoop v cluster [] nodes s = (Some nodes, s)"
| "nodeGroupLoop v cluster (cNodeGroup # rest) nodes s =
     (case invoke (CallDescribeNodegroup cluster cNodeGroup)
             (DescribeNodegroupWithContext v cluster cNodeGroup) s of
        ((nodeGroupDetails, logged), s1) \<Rightarrow>
          (case nodeGroupDetails of
             None \<Rightarrow> (None, s1)
           | Some ng \<Rightarrow>
               (case ng_InstanceTypes ng of
                  Some [] \<Rightarrow> (None, s1)
                | instanceTypes \<Rightarrow>
                    nodeGroupLoop v cluster rest
                      (nodes @
                        [\<lparr>ns_Name = cNodeGroup,
                          ns_Instance = (case instanceTypes of Some (t # ts) \<Rightarrow> t | _ \<Rightarrow> []),
                          ns_DiskSize = (case ng_DiskSize ng of None \<Rightarrow> 0 | Some d \<Rightarrow> ucast d),
                          ns_GpuEnabled = False,
                          ns_Labels = []\<rparr>])
                      s1)))"

text \<open>
  The outer loop of \<^verbatim>\<open>GetClusters\<close>. A failed node-group listing is logged; the loop
  then runs over whatever \<^verbatim>\<open>nodeGroupList.Nodegroups\<close> holds.
\<close>

fun clusterLoop ::
  "'w Vendor \<Rightarrow> string list \<Rightarrow> ClusterSpec list \<Rightarrow> 'w state
     \<Rightarrow> ClusterSpec list option \<times> 'w state" where
  "clusterLoop v [] clusters s = (Some clusters, s)"
| "clusterLoop v (cluster # rest) clusters s =
     (case invoke (CallListNodegroups cluster) (ListNodegroupsWithContext v cluster) s of
        ((nodeGroupList, logged), s1) \<Rightarrow>
          (case nodeGroupLoop v cluster nodeGroupList [] s1 of
             (None, s2) \<Rightarrow> (None, s2)
           | (Some nodes, s2) \<Rightarrow>
               clusterLoop v rest (clusters @ [\<lparr>cs_Name = cluster, cs_NodeSpec = nodes\<rparr>]) s2))"

text \<open>\<^verbatim>\<open>AWSController.GetClusters\<close>; the response is its \<^verbatim>\<open>Clusters\<close> list.\<close>

definition GetClusters ::
  "'w Vendor \<Rightarrow> request \<Rightarrow> 'w state \<Rightarrow> ClusterSpec list result \<times> 'w state" where
  "GetClusters v req s =
     (case NewSession v (Region req) (AccountName req) of
        Some err \<Rightarrow> (Return None (Some err), s)
      | None \<Rightarrow>
          (case invoke CallListClusters (ListClustersWithContext v) s of
             ((listClusterOut, Some err), s1) \<Rightarrow> (Return (Some []) (Some err), s1)
           | ((listClusterOut, None), s1) \<Rightarrow>
               (case clusterLoop v listClusterOut [] s1 of
                  (None, s2) \<Rightarrow> (Panic, s2)
                | (Some clusters, s2) \<Rightarrow> (Return (Some clusters) None, s2))))"

section \<open>AWS controller: node groups\<close>

text \<open>
  \<^verbatim>\<open>getDefaultNode\<close>: the first listed node group's descriptor, unless the listing is
  empty or already holds the requested name.
\<close>

definition getDefaultNode ::
  "'w Vendor \<Rightarrow> string \<Rightarrow> string \<Rightarrow> 'w state \<Rightarrow> (Nodegroup option \<times> error option) \<times> 'w state"
  where
  "getDefaultNode v clusterName nodeName s =
     (case invoke (CallListNodegroups clusterName) (ListNodegroupsWithContext v clusterName) s of
        ((nodeGroupList, Some err), s1) \<Rightarrow> ((None, Some err), s1)
      | ((nodeGroupList, None), s1) \<Rightarrow>
          (case nodeGroupList of
             [] \<Rightarrow> ((None, Some ERR_NO_NODEGROUP), s1)
           | first # others \<Rightarrow>
               if nodeName \<in> set nodeGroupList then ((None, Some ERR_NODEGROUP_EXIST), s1)
               else invoke (CallDescribeNodegroup clusterName first)
                      (DescribeNodegroupWithContext v clusterName first) s1))"

text \<open>
  Modelled from the spec: \<^verbatim>\<open>createRoleOrGetExisting\<close>, a method of the controller that is
  not among the sources. The spec (IAM role provisioner): it looks the role up by name; if
  found, returns it with \<open>wasCreated = false\<close> and does not touch policies; if not found,
  creates it with the given trust document and returns \<open>wasCreated = true\<close>. Any other
  vendor error is returned ("not found" is the only code branched on).
\<close>

definition createRoleOrGetExisting ::
  "'w Vendor \<Rightarrow> string \<Rightarrow> string \<Rightarrow> string \<Rightarrow> 'w state
     \<Rightarrow> (Role option \<times> bool \<times> error option) \<times> 'w state" where
  "createRoleOrGetExisting v roleName description trustDoc s =
     (case invoke (CallGetRole roleName) (GetRoleWithContext v roleName) s of
        ((role, None), s1) \<Rightarrow> ((role, False, None), s1)
      | ((role, Some err), s1) \<Rightarrow>
          (case err of
             AwsErr code msg \<Rightarrow>
               if code = ErrCodeNoSuchEntityException then
                 (case invoke (CallCreateRole roleName)
                         (CreateRoleWithContext v roleName description trustDoc) s1 of
                    ((created, None), s2) \<Rightarrow> ((created, True, None), s2)
                  | ((created, Some err'), s2) \<Rightarrow> ((None, False, Some err'), s2))
               else ((None, False, Some err), s1)
           | _ \<Rightarrow> ((None, False, Some err), s1)))"

text \<open>
  Modelled from the spec: \<^verbatim>\<open>attachPolicy\<close>, a method of the controller that is not among
  the sources. The spec: a separate call that attaches one managed policy to the named
  role and returns the vendor's error, if any.
\<close>

definition attachPolicy ::
  "'w Vendor \<Rightarrow> string \<Rightarrow> string \<Rightarrow> 'w state \<Rightarrow> error option \<times> 'w state" where
  "attachPolicy v roleName policyArn s =
     (case invoke (CallAttachRolePolicy roleName policyArn)
             (AttachRolePolicyWithContext v roleName policyArn) s of
        ((out, err), s1) \<Rightarrow> (err, s1))"

text \<open>
  The values of the label map under construction are pointers (\<^verbatim>\<open>map[string]*string\<close>).
  \<open>Ptr x\<close> points to a string cell that nothing writes during the call: a fresh cell
  from \<^verbatim>\<open>common.StrPtr\<close>, a field of the request's node spec (\<^verbatim>\<open>&nodeSpec.Name\<close>), or a
  cell of the donor's descriptor. \<open>LoopVar\<close> is \<^verbatim>\<open>&v\<close>, the address of the variable of
  the loop \<^verbatim>\<open>for k, v := range nodeSpec.Labels\<close>. In Go before 1.22 (the language of
  these sources: no per-iteration copy \<^verbatim>\<open>v := v\<close> is made) that loop has one variable
  \<^verbatim>\<open>v\<close>, assigned anew in each iteration, so \<^verbatim>\<open>&v\<close> is the same address every time.
\<close>

datatype strptr = Ptr string | LoopVar

text \<open>
  \<^verbatim>\<open>for k, v := range nodeSpec.Labels { labels[k] = &v }\<close>: the label map and the content
  of \<^verbatim>\<open>v\<close>, after the entries have been visited in the given order.
\<close>

fun rangeLabels ::
  "(string \<times> string) list \<Rightarrow> (string \<rightharpoonup> strptr) \<Rightarrow> string \<Rightarrow> (string \<rightharpoonup> strptr) \<times> string" where
  "rangeLabels [] labels v = (labels, v)"
| "rangeLabels ((k, x) # entries) labels v = rangeLabels entries (labels(k \<mapsto> LoopVar)) x"

text \<open>Reading a label value through its pointer, \<open>v\<close> being the content of the loop variable.\<close>

fun deref :: "string \<Rightarrow> strptr \<Rightarrow> string" where
  "deref v (Ptr x) = x"
| "deref v LoopVar = v"

text \<open>The map literal that both builders start from.\<close>

definition systemLabels :: "Constants \<Rightarrow> NodeSpec \<Rightarrow> (string \<rightharpoonup> strptr)" where
  "systemLabels K nodeSpec =
     [CREATOR_LABEL K \<mapsto> Ptr (SPAWNER_SERVICE_LABEL K),
      NODE_NAME_LABEL K \<mapsto> Ptr (ns_Name nodeSpec),
      NODE_LABEL_SELECTOR_LABEL K \<mapsto> Ptr (ns_Name nodeSpec),
      INSTANCE_LABEL K \<mapsto> Ptr (ns_Instance nodeSpec),
      ''type'' \<mapsto> Ptr ''nodegroup'']"

definition fixedScaling :: "NodegroupScalingConfig option" where
  "fixedScaling = Some \<lparr>DesiredSize = Some 1, MinSize = Some 1, MaxSize = Some 1\<rparr>"

text \<open>
  Lines 764 to 800 of \<^verbatim>\<open>getNewNodeGroupSpecFromCluster\<close>: the input built from the
  cluster's subnets and the node role. \<^verbatim>\<open>nodeRole.Arn\<close> and
  \<^verbatim>\<open>cluster.ResourcesVpcConfig.SubnetIds\<close> are read through pointers.
\<close>

definition inputFromCluster ::
  "Constants \<Rightarrow> Cluster option \<Rightarrow> Role option \<Rightarrow> string \<Rightarrow> NodeSpec
     \<Rightarrow> CreateNodegroupInput result" where
  "inputFromCluster K cluster nodeRole clusterName nodeSpec =
     (case rangeLabels (ns_Labels nodeSpec) (systemLabels K nodeSpec) [] of
        (labels, v) \<Rightarrow>
          (case nodeRole of
             None \<Rightarrow> Panic
           | Some role \<Rightarrow>
               (case cluster of
                  None \<Rightarrow> Panic
                | Some c \<Rightarrow>
                    (case cl_ResourcesVpcConfig c of
                       None \<Rightarrow> Panic
                     | Some subnetIds \<Rightarrow>
                         Return (Some
                           \<lparr>in_AmiType =
                              Some (if ns_GpuEnabled nodeSpec then ''AL2_x86_64_GPU''
                                    else ''AL2_x86_64''),
                            in_CapacityType = Some ''ON_DEMAND'',
                            in_NodeRole = role_Arn role,
                            in_InstanceTypes = [ns_Instance nodeSpec],
                            in_ClusterName = Some clusterName,
                            in_DiskSize = Some (scast (ns_DiskSize nodeSpec)),
                            in_NodegroupName = Some (ns_Name nodeSpec),
                            in_ReleaseVersion = None,
                            in_Labels = (\<lambda>k. map_option (deref v) (labels k)),
                            in_Subnets = subnetIds,
                            in_ScalingConfig = fixedScaling\<rparr>) None))))"

text \<open>
  \<^verbatim>\<open>getNewNodeGroupSpecFromCluster\<close>: describe the cluster, get or create the node-group
  role, attach the three managed policies when the role is new, build the input.
  \<^verbatim>\<open>*nodeRole.RoleName\<close> is read for each attachment.
\<close>

definition getNewNodeGroupSpecFromCluster ::
  "Constants \<Rightarrow> 'w Vendor \<Rightarrow> string \<Rightarrow> NodeSpec \<Rightarrow> 'w state
     \<Rightarrow> CreateNodegroupInput result \<times> 'w state" where
  "getNewNodeGroupSpecFromCluster K v clusterName nodeSpec s =
     (case getClusterSpec v clusterName s of
        ((cluster, Some err), s1) \<Rightarrow> (Return None (Some err), s1)
      | ((cluster, None), s1) \<Rightarrow>
          (case createRoleOrGetExisting v AWS_NODE_GROUP_ROLE_NAME
                  ''node group instance policy role'' EC2_ASSUME_ROLE_DOC s1 of
             ((nodeRole, newRole, Some err), s2) \<Rightarrow> (Return None (Some err), s2)
           | ((nodeRole, newRole, None), s2) \<Rightarrow>
               if newRole then
                 (case Option.bind nodeRole role_RoleName of
                    None \<Rightarrow> (Panic, s2)
                  | Some roleName \<Rightarrow>
                      (case attachPolicy v roleName EKS_WORKER_NODE_POLICY_ARN s2 of
                         (Some err, s3) \<Rightarrow> (Return None (Some err), s3)
                       | (None, s3) \<Rightarrow>
                           (case attachPolicy v roleName EKS_EC2_CONTAINER_RO_POLICY_ARN s3 of
                              (Some err, s4) \<Rightarrow> (Return None (Some err), s4)
                            | (None, s4) \<Rightarrow>
                                (case attachPolicy v roleName EKS_CNI_POLICY_ARN s4 of
                                   (Some err, s5) \<Rightarrow> (Return None (Some err), s5)
                                 | (None, s5) \<Rightarrow>
                                     (inputFromCluster K cluster nodeRole clusterName nodeSpec,
                                      s5)))))
               else (inputFromCluster K cluster nodeRole clusterName nodeSpec, s2)))"

text \<open>
  \<^verbatim>\<open>getNodeSpecFromDefault\<close>: the donor's labels are copied over the literal (the donor's
  own pointers), then the caller's labels are written by the same \<^verbatim>\<open>range\<close> loop.
\<close>

definition getNodeSpecFromDefault ::
  "Constants \<Rightarrow> Nodegroup \<Rightarrow> string \<Rightarrow> NodeSpec \<Rightarrow> CreateNodegroupInput" where
  "getNodeSpecFromDefault K defaultNode clusterName nodeSpec =
     (case rangeLabels (ns_Labels nodeSpec)
             (systemLabels K nodeSpec ++ (\<lambda>k. map_option Ptr (ng_Labels defaultNode k))) [] of
        (labels, v) \<Rightarrow>
          \<lparr>in_AmiType = ng_AmiType defaultNode,
           in_CapacityType = ng_CapacityType defaultNode,
           in_NodeRole = ng_NodeRole defaultNode,
           in_InstanceTypes = [ns_Instance nodeSpec],
           in_ClusterName = Some clusterName,
           in_DiskSize = Some (scast (ns_DiskSize nodeSpec)),
           in_NodegroupName = Some (ns_Name nodeSpec),
           in_ReleaseVersion = ng_ReleaseVersion defaultNode,
           in_Labels = (\<lambda>k. map_option (deref v) (labels k)),
           in_Subnets = ng_Subnets defaultNode,
           in_ScalingConfig = fixedScaling\<rparr>)"

text \<open>
  Lines 879 to 885 of \<^verbatim>\<open>AddNode\<close>: the vendor's create request with whatever input has
  been built (nil when none was), and the log line reading \<^verbatim>\<open>*out.Nodegroup.Status\<close>.
\<close>

definition createNodegroup ::
  "'w Vendor \<Rightarrow> CreateNodegroupInput option \<Rightarrow> 'w state \<Rightarrow> unit result \<times> 'w state" where
  "createNodegroup v newNodeGroupInput s =
     (case invoke (CallCreateNodegroup newNodeGroupInput)
             (CreateNodegroupWithContext v newNodeGroupInput) s of
        ((out, Some err), s1) \<Rightarrow> (Return None (Some err), s1)
      | ((out, None), s1) \<Rightarrow>
          (case Option.bind out ng_Status of
             None \<Rightarrow> (Panic, s1)
           | Some st \<Rightarrow> (Return (Some ()) None, s1)))"

text \<open>
  \<^verbatim>\<open>AWSController.AddNode\<close>. Of the errors of \<^verbatim>\<open>getDefaultNode\<close>, the two sentinels have a
  branch; after any other error neither branch is taken and control reaches the create
  request with \<^verbatim>\<open>newNodeGroupInput\<close> still nil. Without an error, the log line reads
  \<^verbatim>\<open>*defaultNode.NodegroupName\<close>.
\<close>

definition AddNode ::
  "Constants \<Rightarrow> 'w Vendor \<Rightarrow> NodeSpawnRequest \<Rightarrow> 'w state \<Rightarrow> unit result \<times> 'w state" where
  "AddNode K v req s =
     (case NewSession v (Region req) (AccountName req) of
        Some err \<Rightarrow> (Return None (Some err), s)
      | None \<Rightarrow>
          (case NodeSpec req of
             None \<Rightarrow> (Panic, s)
           | Some nodeSpec \<Rightarrow>
               (case getDefaultNode v (ClusterName req) (ns_Name nodeSpec) s of
                  ((defaultNode, Some err), s1) \<Rightarrow>
                    if err = ERR_NODEGROUP_EXIST then (Return None (Some err), s1)
                    else if err = ERR_NO_NODEGROUP then
                      (case getNewNodeGroupSpecFromCluster K v (ClusterName req) nodeSpec s1 of
                         (Panic, s2) \<Rightarrow> (Panic, s2)
                       | (Return newNodeGroupInput (Some err'), s2) \<Rightarrow>
                           (Return None (Some err'), s2)
                       | (Return newNodeGroupInput None, s2) \<Rightarrow>
                           createNodegroup v newNodeGroupInput s2)
                    else createNodegroup v None s1
                | ((defaultNode, None), s1) \<Rightarrow>
                    (case defaultNode of
                       None \<Rightarrow> (Panic, s1)
                     | Some d \<Rightarrow>
                         (case ng_NodegroupName d of
                            None \<Rightarrow> (Panic, s1)
                          | Some donorName \<Rightarrow>
                              createNodegroup v
                                (Some (getNodeSpecFromDefault K d (ClusterName req) nodeSpec))
                                s1)))))"

section \<open>Reading the record of calls\<close>

text \<open>The calls issued between two states of one run, in order.\<close>

definition issued :: "'w state \<Rightarrow> 'w state \<Rightarrow> (call \<times> error option) list" where
  "issued s s' = drop (length (calls s)) (calls s')"

fun isCreateCluster :: "call \<times> error option \<Rightarrow> bool" where
  "isCreateCluster (CallCreateClusterInternal n, e) = True"
| "isCreateCluster other = False"

fun isCreateNodegroup :: "call \<times> error option \<Rightarrow> bool" where
  "isCreateNodegroup (CallCreateNodegroup i, e) = True"
| "isCreateNodegroup other = False"

fun isCreateRole :: "call \<times> error option \<Rightarrow> bool" where
  "isCreateRole (CallCreateRole n, e) = True"
| "isCreateRole other = False"

text \<open>The policies of the attachment requests in a record of calls, in order.\<close>

fun attached :: "(call \<times> error option) list \<Rightarrow> string list" where
  "attached [] = []"
| "attached ((CallAttachRolePolicy role arn, e) # evs) = arn # attached evs"
| "attached (other # evs) = attached evs"

definition nodePolicies :: "string list" where
  "nodePolicies =
     [EKS_WORKER_NODE_POLICY_ARN, EKS_EC2_CONTAINER_RO_POLICY_ARN, EKS_CNI_POLICY_ARN]"

section \<open>What the vendor is assumed to do\<close>

text \<open>
  Three properties of the vendor that the idempotence of \<^verbatim>\<open>CreateCluster\<close> rests on.
  A cluster that a describe request has found is found again by the next one, under the
  same name; a cluster that the create step has returned is found by the next describe
  request, under the same name; and a describe request that returns an error returns no
  descriptor (the SDK leaves \<^verbatim>\<open>out.Cluster\<close> nil when the request fails).
\<close>

definition describeRepeatable :: "'w Vendor \<Rightarrow> bool" where
  "describeRepeatable v \<longleftrightarrow>
     (\<forall>n w c w'. DescribeClusterWithContext v n w = ((Some c, None), w') \<longrightarrow>
        (\<exists>c' w''. DescribeClusterWithContext v n w' = ((Some c', None), w'') \<and>
                  cl_Name c' = cl_Name c))"

definition describeAfterCreate :: "'w Vendor \<Rightarrow> bool" where
  "describeAfterCreate v \<longleftrightarrow>
     (\<forall>n req w c w'. createClusterInternal v n req w = ((Some c, None), w') \<longrightarrow>
        (\<exists>c' w''. DescribeClusterWithContext v n w' = ((Some c', None), w'') \<and>
                  cl_Name c' = cl_Name c))"

definition describeErrorHasNoCluster :: "'w Vendor \<Rightarrow> bool" where
  "describeErrorHasNoCluster v \<longleftrightarrow>
     (\<forall>n w c e w'. DescribeClusterWithContext v n w = ((c, Some e), w') \<longrightarrow> c = None)"

section \<open>A test double of the vendor\<close>

text \<open>
  A small vendor for the concrete instances below: the names of the clusters, the node
  groups as (cluster, node group) pairs and the names of the roles that exist. Requests
  succeed when the resource is there and fail with the vendor's "not found" code when it
  is not; single requests are made to fail by overriding a field.
\<close>

record fake =
  f_clusters :: "string list"
  f_nodegroups :: "(string \<times> string) list"
  f_roles :: "string list"

definition fakeCluster :: "string \<Rightarrow> string \<Rightarrow> Cluster" where
  "fakeCluster n st =
     \<lparr>cl_Name = Some n, cl_Status = Some st, cl_ResourcesVpcConfig = Some [''subnet-1'']\<rparr>"

definition fakeNodegroup :: "string \<Rightarrow> string \<Rightarrow> Nodegroup" where
  "fakeNodegroup n st =
     \<lparr>ng_NodegroupName = Some n, ng_Status = Some st, ng_AmiType = Some ''AL2_x86_64'',
      ng_CapacityType = Some ''ON_DEMAND'', ng_NodeRole = Some ''arn:role/node'',
      ng_ReleaseVersion = Some ''1.21'', ng_Subnets = [''subnet-1''],
      ng_InstanceTypes = Some [''t3.medium''], ng_DiskSize = Some 20,
      ng_Labels = [''a'' \<mapsto> ''1'', ''b'' \<mapsto> ''2'']\<rparr>"

definition fakeRole :: "string \<Rightarrow> Role" where
  "fakeRole n = \<lparr>role_RoleName = Some n, role_Arn = Some (''arn:role/'' @ n)\<rparr>"

definition fakeVendor :: "fake Vendor" where
  "fakeVendor =
     \<lparr>NewSession = (\<lambda>region account. None),
      DescribeClusterWithContext = (\<lambda>n w.
        if n \<in> set (f_clusters w) then ((Some (fakeCluster n ''ACTIVE''), None), w)
        else ((None, Some (AwsErr ErrCodeResourceNotFoundException ''no such cluster'')), w)),
      createClusterInternal = (\<lambda>n req w.
        ((Some (fakeCluster n ''CREATING''), None), w\<lparr>f_clusters := f_clusters w @ [n]\<rparr>)),
      ListClustersWithContext = (\<lambda>w. ((f_clusters w, None), w)),
      ListNodegroupsWithContext = (\<lambda>c w.
        ((map snd (filter (\<lambda>p. fst p = c) (f_nodegroups w)), None), w)),
      DescribeNodegroupWithContext = (\<lambda>c n w.
        if (c, n) \<in> set (f_nodegroups w) then ((Some (fakeNodegroup n ''ACTIVE''), None), w)
        else ((None, Some (AwsErr ErrCodeResourceNotFoundException ''no such nodegroup'')), w)),
      GetRoleWithContext = (\<lambda>n w.
        if n \<in> set (f_roles w) then ((Some (fakeRole n), None), w)
        else ((None, Some (AwsErr ErrCodeNoSuchEntityException ''no such role'')), w)),
      CreateRoleWithContext = (\<lambda>n description trustDoc w.
        ((Some (fakeRole n), None), w\<lparr>f_roles := f_roles w @ [n]\<rparr>)),
      AttachRolePolicyWithContext = (\<lambda>role arn w. (((), None), w)),
      CreateNodegroupWithContext = (\<lambda>i w.
        case i of
          None \<Rightarrow> ((None, Some (AwsErr ''InvalidParameter'' ''missing required field'')), w)
        | Some input \<Rightarrow>
            (case (in_ClusterName input, in_NodegroupName input) of
               (Some c, Some n) \<Rightarrow>
                 ((Some (fakeNodegroup n ''CREATING''), None),
                  w\<lparr>f_nodegroups := f_nodegroups w @ [(c, n)]\<rparr>)
             | other \<Rightarrow>
                 ((None, Some (AwsErr ''InvalidParameter'' ''missing required field'')), w))),
      DeleteClusterWithContext = (\<lambda>n w.
        if n \<in> set (f_clusters w)
        then ((Some (fakeCluster n ''DELETING''), None),
              w\<lparr>f_clusters := removeAll n (f_clusters w)\<rparr>)
        else ((None, Some (AwsErr ErrCodeResourceNotFoundException ''no such cluster'')), w)),
      DeleteNodegroupWithContext = (\<lambda>c n w.
        if (c, n) \<in> set (f_nodegroups w)
        then ((Some (fakeNodegroup n ''DELETING''), None),
              w\<lparr>f_nodegroups := removeAll (c, n) (f_nodegroups w)\<rparr>)
        else ((None, Some (AwsErr ErrCodeResourceNotFoundException ''no such nodegroup'')), w)),
      getKubeConfig = (\<lambda>c w.
        case c of
          None \<Rightarrow> (None, Some (Errorf ''no cluster''))
        | Some cluster \<Rightarrow>
            (Some \<lparr>BearerToken = ''token'', CAData = ''ca'', Host = ''https://eks''\<rparr>, None))\<rparr>"

definition tagged :: "string \<Rightarrow> (request, string, nat) Controller" where
  "tagged name m req w = ((Some name, None), Suc w)"

definition threeControllers :: "(request, string, nat) Controller spawnerService" where
  "threeControllers =
     \<lparr>awsController = tagged ''AWS'', azureController = tagged ''Azure'',
      gcpController = tagged ''GCP''\<rparr>"

definition awsRequest :: ClusterRequest where
  "awsRequest =
     \<lparr>Provider = ''aws'', Region = ''us-east-1'', AccountName = ''acme'', ClusterName = []\<rparr>"

definition gpuWorld :: fake where
  "gpuWorld = \<lparr>f_clusters = [''c1''], f_nodegroups = [(''c1'', ''cpu-pool''), (''c1'', ''gpu-pool'')],
               f_roles = []\<rparr>"

definition gpuSpec :: NodeSpec where
  "gpuSpec = \<lparr>ns_Name = ''gpu-pool'', ns_Instance = ''p3.2xlarge'', ns_DiskSize = 100,
              ns_GpuEnabled = True, ns_Labels = [(''b'', ''9''), (''c'', ''3'')]\<rparr>"

definition gpuRequest :: NodeSpawnRequest where
  "gpuRequest = \<lparr>Provider = ''aws'', Region = ''us-east-1'', AccountName = ''acme'',
                 ClusterName = ''c1'', NodeSpec = Some gpuSpec\<rparr>"

definition throttled :: error where
  "throttled = AwsErr ''ThrottlingException'' ''Rate exceeded''"

definition start :: "fake \<Rightarrow> fake state" where
  "start w = \<lparr>calls = [], world = w\<rparr>"

definition emptyWorld :: fake where
  "emptyWorld = \<lparr>f_clusters = [], f_nodegroups = [], f_roles = []\<rparr>"

definition labelKeys :: Constants where
  "labelKeys =
     \<lparr>CREATOR_LABEL = ''creator'', SPAWNER_SERVICE_LABEL = ''spawner-service'',
      NODE_NAME_LABEL = ''node-name'', NODE_LABEL_SELECTOR_LABEL = ''node-label-selector'',
      INSTANCE_LABEL = ''instance-type''\<rparr>"

definition deniedVendor :: "fake Vendor" where
  "deniedVendor =
     fakeVendor\<lparr>DescribeClusterWithContext :=
       (\<lambda>n w. ((None, Some (AwsErr ''AccessDeniedException'' ''not authorized'')), w))\<rparr>"

definition throttledListVendor :: "fake Vendor" where
  "throttledListVendor =
     fakeVendor\<lparr>ListNodegroupsWithContext := (\<lambda>c w. (([], Some throttled), w))\<rparr>"

definition flakyDescribeVendor :: "fake Vendor" where
  "flakyDescribeVendor =
     fakeVendor\<lparr>DescribeNodegroupWithContext :=
       (\<lambda>c n w. if n = ''gpu-pool'' then ((None, Some throttled), w)
                else DescribeNodegroupWithContext fakeVendor c n w)\<rparr>"

definition twoClusters :: fake where
  "twoClusters =
     \<lparr>f_clusters = [''c1'', ''c2''],
      f_nodegroups = [(''c1'', ''cpu-pool''), (''c1'', ''gpu-pool''), (''c2'', ''pool'')],
      f_roles = []\<rparr>"

definition listRequest :: request where
  "listRequest = \<lparr>Provider = ''aws'', Region = ''us-east-1'', AccountName = ''acme''\<rparr>"

definition freshWorld :: fake where
  "freshWorld = \<lparr>f_clusters = [''c1''], f_nodegroups = [], f_roles = []\<rparr>"

definition roleWorld :: fake where
  "roleWorld = \<lparr>f_clusters = [''c1''], f_nodegroups = [], f_roles = [AWS_NODE_GROUP_ROLE_NAME]\<rparr>"

definition failingAttachVendor :: "fake Vendor" where
  "failingAttachVendor =
     fakeVendor\<lparr>AttachRolePolicyWithContext :=
       (\<lambda>role arn w.
          (((), if arn = EKS_EC2_CONTAINER_RO_POLICY_ARN then Some throttled else None), w))\<rparr>"

definition clusterC1 :: ClusterRequest where
  "clusterC1 = \<lparr>Provider = ''aws'', Region = ''us-east-1'', AccountName = ''acme'',
                ClusterName = ''c1''\<rparr>"

definition deleteGpuPool :: NodeDeleteRequest where
  "deleteGpuPool = \<lparr>Provider = ''aws'', Region = ''us-east-1'', AccountName = ''acme'',
                    ClusterName = ''c1'', NodeGroupName = ''gpu-pool''\<rparr>"

definition notFound :: "string \<Rightarrow> error" where
  "notFound what = AwsErr ErrCodeResourceNotFoundException what"

section \<open>Properties\<close>

text \<open>
  C8. The provider strings "aws", "azure" and "gcp" resolve to the AWS, Azure and GCP
  controllers, and a dispatched operation on such a request is the controller's own
  method. For any other provider string, resolution fails with the
  \<open>ProviderNotFound\<close> message filled in with that string, and every dispatched
  operation returns a nil response with that error and leaves the world untouched,
  whatever the three controllers are: no controller is reached.
\<close>

theorem provider_dispatch:
  "controller s ''aws'' = Inr (awsController s) \<and>
   controller s ''azure'' = Inr (azureController s) \<and>
   controller s ''gcp'' = Inr (gcpController s) \<and>
   (Provider req = ''aws'' \<longrightarrow> dispatch s m req w = awsController s m req w) \<and>
   (Provider req = ''azure'' \<longrightarrow> dispatch s m req w = azureController s m req w) \<and>
   (Provider req = ''gcp'' \<longrightarrow> dispatch s m req w = gcpController s m req w) \<and>
   (Provider req \<notin> {''aws'', ''azure'', ''gcp''} \<longrightarrow>
      controller s (Provider req) = Inl (Errorf (ProviderNotFound (Provider req))) \<and>
      dispatch s m req w = ((None, Some (Errorf (ProviderNotFound (Provider req)))), w) \<and>
      dispatch s' m req w = dispatch s m req w)"
  by (simp add: controller_def dispatch_def)

theorem provider_dispatch_witness:
  "dispatch threeControllers MAddNode \<lparr>Provider = ''aws'', Region = ''r'', AccountName = ''a''\<rparr> 0
     = ((Some ''AWS'', None), 1) \<and>
   dispatch threeControllers MAddNode \<lparr>Provider = ''AWS'', Region = ''r'', AccountName = ''a''\<rparr> 0
     = ((None, Some (Errorf (ProviderNotFound ''AWS''))), 0)"
  using provider_dispatch [of threeControllers
      "\<lparr>Provider = ''aws'', Region = ''r'', AccountName = ''a''\<rparr>" MAddNode 0]
    provider_dispatch [of threeControllers
      "\<lparr>Provider = ''AWS'', Region = ''r'', AccountName = ''a''\<rparr>" MAddNode 0]
  by (simp add: threeControllers_def tagged_def)

subsection \<open>Creating a cluster\<close>

lemma issued_append [simp]: "issued s \<lparr>calls = calls s @ evs, world = w\<rparr> = evs"
  by (simp add: issued_def)

lemma CreateCluster_present:
  assumes "NewSession v (Region req) (AccountName req) = None"
    and "DescribeClusterWithContext v (clusterNameOrDefault req) (world s) = ((Some c, None), w')"
    and "cl_Name c = Some nm"
  shows "CreateCluster v req s =
           (Return (Some \<lparr>cr_ClusterName = nm\<rparr>) None,
            \<lparr>calls = calls s @ [(CallDescribeCluster (clusterNameOrDefault req), None)],
             world = w'\<rparr>)"
  using assms
  by (simp add: CreateCluster_def getClusterSpec_def invoke_def clusterResponse_def Let_def)

lemma clusterResponse_Return:
  "clusterResponse cluster = Return (Some r) e \<Longrightarrow>
   \<exists>c. cluster = Some c \<and> cl_Name c = Some (cr_ClusterName r) \<and> e = None"
  by (auto simp: clusterResponse_def split: option.splits)

lemma CreateCluster_Return:
  assumes "CreateCluster v req s = (Return (Some r) e, s1)"
  shows "NewSession v (Region req) (AccountName req) = None \<and> e = None \<and>
         (\<exists>evs w1. s1 = \<lparr>calls = calls s @ evs, world = w1\<rparr> \<and>
            ((\<exists>c. evs = [(CallDescribeCluster (clusterNameOrDefault req), None)] \<and>
                 DescribeClusterWithContext v (clusterNameOrDefault req) (world s)
                   = ((Some c, None), w1) \<and> cl_Name c = Some (cr_ClusterName r)) \<or>
             (\<exists>c absent msg w0.
                 evs = [(CallDescribeCluster (clusterNameOrDefault req),
                           Some (AwsErr ErrCodeResourceNotFoundException msg)),
                        (CallCreateClusterInternal (clusterNameOrDefault req), None)] \<and>
                 DescribeClusterWithContext v (clusterNameOrDefault req) (world s)
                   = ((absent, Some (AwsErr ErrCodeResourceNotFoundException msg)), w0) \<and>
                 createClusterInternal v (clusterNameOrDefault req) req w0 = ((Some c, None), w1) \<and>
                 cl_Name c = Some (cr_ClusterName r)) \<or>
             (\<exists>c code msg. 
                 DescribeClusterWithContext v (clusterNameOrDefault req) (world s)
                   = ((Some c, Some (AwsErr code msg)), w1))))"
  using assms
  apply (simp add: CreateCluster_def getClusterSpec_def invoke_def Let_def
         split: option.splits prod.splits error.splits if_splits)
  apply (auto dest!: clusterResponse_Return)
  done


lemma describeRepeatableD:
  "describeRepeatable v \<Longrightarrow> DescribeClusterWithContext v n w = ((Some c, None), w') \<Longrightarrow>
   \<exists>c' w''. DescribeClusterWithContext v n w' = ((Some c', None), w'') \<and> cl_Name c' = cl_Name c"
  unfolding describeRepeatable_def by (erule allE, erule allE, erule allE, erule allE, erule mp)

lemma describeAfterCreateD:
  "describeAfterCreate v \<Longrightarrow> createClusterInternal v n req w = ((Some c, None), w') \<Longrightarrow>
   \<exists>c' w''. DescribeClusterWithContext v n w' = ((Some c', None), w'') \<and> cl_Name c' = cl_Name c"
  unfolding describeAfterCreate_def
  by (erule allE, erule allE, erule allE, erule allE, erule allE, erule mp)

lemma describeErrorHasNoClusterD:
  "describeErrorHasNoCluster v \<Longrightarrow> DescribeClusterWithContext v n w = ((c, Some e), w') \<Longrightarrow>
   c = None"
  unfolding describeErrorHasNoCluster_def
  by (erule allE, erule allE, erule allE, erule allE, erule allE, erule mp)

lemma CreateCluster_second:
  assumes rep: "describeRepeatable v" and aft: "describeAfterCreate v"
    and noc: "describeErrorHasNoCluster v"
    and first: "CreateCluster v req s = (Return (Some r1) e1, s1)"
  shows "\<exists>s2. CreateCluster v req s1 = (Return (Some r1) None, s2) \<and>
           filter isCreateCluster (issued s1 s2) = [] \<and>
           length (filter isCreateCluster (issued s s2)) \<le> 1"
proof -
  let ?n = "clusterNameOrDefault req"
  note R = CreateCluster_Return [OF first]
  from R have sess: "NewSession v (Region req) (AccountName req) = None" by (rule conjunct1)
  from R obtain evs w1 where s1: "s1 = \<lparr>calls = calls s @ evs, world = w1\<rparr>"
    and shape:
      "(\<exists>c. evs = [(CallDescribeCluster ?n, None)] \<and>
            DescribeClusterWithContext v ?n (world s) = ((Some c, None), w1) \<and>
            cl_Name c = Some (cr_ClusterName r1)) \<or>
       (\<exists>c absent msg w0.
            evs = [(CallDescribeCluster ?n, Some (AwsErr ErrCodeResourceNotFoundException msg)),
                   (CallCreateClusterInternal ?n, None)] \<and>
            DescribeClusterWithContext v ?n (world s)
              = ((absent, Some (AwsErr ErrCodeResourceNotFoundException msg)), w0) \<and>
            createClusterInternal v ?n req w0 = ((Some c, None), w1) \<and>
            cl_Name c = Some (cr_ClusterName r1)) \<or>
       (\<exists>c code msg.
            DescribeClusterWithContext v ?n (world s) = ((Some c, Some (AwsErr code msg)), w1))"
    by (elim conjE exE) (rule that)
  have "(\<exists>c' w2. DescribeClusterWithContext v ?n w1 = ((Some c', None), w2) \<and>
                  cl_Name c' = Some (cr_ClusterName r1)) \<and>
        length (filter isCreateCluster evs) \<le> 1"
    using shape
  proof (elim disjE exE conjE)
    fix c
    assume e: "evs = [(CallDescribeCluster ?n, None)]"
      and d: "DescribeClusterWithContext v ?n (world s) = ((Some c, None), w1)"
      and n: "cl_Name c = Some (cr_ClusterName r1)"
    from describeRepeatableD [OF rep d] n e show ?thesis by simp
  next
    fix c absent msg w0
    assume e: "evs = [(CallDescribeCluster ?n, Some (AwsErr ErrCodeResourceNotFoundException msg)),
                   (CallCreateClusterInternal ?n, None)]"
      and d: "createClusterInternal v ?n req w0 = ((Some c, None), w1)"
      and n: "cl_Name c = Some (cr_ClusterName r1)"
    from describeAfterCreateD [OF aft d] n e show ?thesis by simp
  next
    fix c code msg
    assume d: "DescribeClusterWithContext v ?n (world s) = ((Some c, Some (AwsErr code msg)), w1)"
    from describeErrorHasNoClusterD [OF noc d] show ?thesis by simp
  qed
  then obtain c' w2
    where d: "DescribeClusterWithContext v ?n (world s1) = ((Some c', None), w2)"
      and nm: "cl_Name c' = Some (cr_ClusterName r1)"
      and one: "length (filter isCreateCluster evs) \<le> 1"
    by (elim conjE exE) (simp add: s1)
  have "CreateCluster v req s1 =
          (Return (Some \<lparr>cr_ClusterName = cr_ClusterName r1\<rparr>) None,
           \<lparr>calls = calls s1 @ [(CallDescribeCluster ?n, None)], world = w2\<rparr>)"
    by (rule CreateCluster_present [OF sess d nm])
  moreover have "issued s \<lparr>calls = calls s1 @ [(CallDescribeCluster ?n, None)], world = w2\<rparr>
                   = evs @ [(CallDescribeCluster ?n, None)]"
    by (simp add: issued_def s1)
  ultimately show ?thesis using one by simp
qed


lemma CreateCluster_creates:
  assumes "CreateCluster v req s = (res, s')"
    and "filter isCreateCluster (issued s s') \<noteq> []"
  shows "\<exists>msg e. issued s s' =
           [(CallDescribeCluster (clusterNameOrDefault req),
               Some (AwsErr ErrCodeResourceNotFoundException msg)),
            (CallCreateClusterInternal (clusterNameOrDefault req), e)]"
  using assms
  by (auto simp: CreateCluster_def getClusterSpec_def invoke_def Let_def issued_def
      split: option.splits prod.splits error.splits if_splits)

text \<open>
  C1. \<^verbatim>\<open>CreateCluster\<close> describes before it creates, and creating twice is creating
  once. (1) When the session opens and the describe request finds the cluster, whatever
  its status, the call is a successful no-op: it answers with the found cluster's name
  and the describe request is the only call it issues. (2) In every run, if the create
  step is invoked at all, then exactly two calls were issued: a describe request under
  the request's name that answered "resource not found", then the create step under the
  same name. (3) Against a vendor whose describe requests are consistent
  (\<open>describeRepeatable\<close>, \<open>describeAfterCreate\<close>, \<open>describeErrorHasNoCluster\<close>), if
  a first call returns a response, a second call with the same request, made in the state
  the first one left, returns the same response (the same cluster name) with no error,
  invokes no create step, and the two calls together invoke the create step at most once.
\<close>

theorem CreateCluster_idempotent:
  "(NewSession v (Region req) (AccountName req) = None \<and>
    DescribeClusterWithContext v (clusterNameOrDefault req) (world s) = ((Some c, None), w') \<and>
    cl_Name c = Some nm \<longrightarrow>
      CreateCluster v req s =
        (Return (Some \<lparr>cr_ClusterName = nm\<rparr>) None,
         \<lparr>calls = calls s @ [(CallDescribeCluster (clusterNameOrDefault req), None)],
          world = w'\<rparr>)) \<and>
   (CreateCluster v req s = (res, s') \<and> filter isCreateCluster (issued s s') \<noteq> [] \<longrightarrow>
      (\<exists>msg e. issued s s' =
         [(CallDescribeCluster (clusterNameOrDefault req),
             Some (AwsErr ErrCodeResourceNotFoundException msg)),
          (CallCreateClusterInternal (clusterNameOrDefault req), e)])) \<and>
   (describeRepeatable v \<and> describeAfterCreate v \<and> describeErrorHasNoCluster v \<and>
    CreateCluster v req s = (Return (Some r1) e1, s1) \<longrightarrow>
      (\<exists>s2. CreateCluster v req s1 = (Return (Some r1) None, s2) \<and>
            filter isCreateCluster (issued s1 s2) = [] \<and>
            length (filter isCreateCluster (issued s s2)) \<le> 1))"
proof (intro conjI impI)
  assume "NewSession v (Region req) (AccountName req) = None \<and>
    DescribeClusterWithContext v (clusterNameOrDefault req) (world s) = ((Some c, None), w') \<and>
    cl_Name c = Some nm"
  then show "CreateCluster v req s =
        (Return (Some \<lparr>cr_ClusterName = nm\<rparr>) None,
         \<lparr>calls = calls s @ [(CallDescribeCluster (clusterNameOrDefault req), None)],
          world = w'\<rparr>)"
    by (simp add: CreateCluster_present)
next
  assume "CreateCluster v req s = (res, s') \<and> filter isCreateCluster (issued s s') \<noteq> []"
  then show "\<exists>msg e. issued s s' =
         [(CallDescribeCluster (clusterNameOrDefault req),
             Some (AwsErr ErrCodeResourceNotFoundException msg)),
          (CallCreateClusterInternal (clusterNameOrDefault req), e)]"
    using CreateCluster_creates by blast
next
  assume "describeRepeatable v \<and> describeAfterCreate v \<and> describeErrorHasNoCluster v \<and>
    CreateCluster v req s = (Return (Some r1) e1, s1)"
  then show "\<exists>s2. CreateCluster v req s1 = (Return (Some r1) None, s2) \<and>
            filter isCreateCluster (issued s1 s2) = [] \<and>
            length (filter isCreateCluster (issued s s2)) \<le> 1"
    using CreateCluster_second by blast
qed

lemma fakeVendor_contract:
  "describeRepeatable fakeVendor" "describeAfterCreate fakeVendor"
  "describeErrorHasNoCluster fakeVendor"
  by (auto simp: describeRepeatable_def describeAfterCreate_def describeErrorHasNoCluster_def
      fakeVendor_def fakeCluster_def split: if_splits)

lemma fake_first:
  "CreateCluster fakeVendor awsRequest (start emptyWorld) =
     (Return (Some \<lparr>cr_ClusterName = ''aws-us-east-1''\<rparr>) None,
      \<lparr>calls = [(CallDescribeCluster ''aws-us-east-1'',
                   Some (AwsErr ErrCodeResourceNotFoundException ''no such cluster'')),
                 (CallCreateClusterInternal ''aws-us-east-1'', None)],
       world = \<lparr>f_clusters = [''aws-us-east-1''], f_nodegroups = [], f_roles = []\<rparr>\<rparr>)"
  by (simp add: CreateCluster_def clusterNameOrDefault_def getClusterSpec_def invoke_def
      clusterResponse_def Let_def fakeVendor_def fakeCluster_def awsRequest_def start_def
      emptyWorld_def)

theorem CreateCluster_idempotent_witness:
  "\<exists>s1 s2.
     CreateCluster fakeVendor awsRequest (start emptyWorld)
       = (Return (Some \<lparr>cr_ClusterName = ''aws-us-east-1''\<rparr>) None, s1) \<and>
     CreateCluster fakeVendor awsRequest s1
       = (Return (Some \<lparr>cr_ClusterName = ''aws-us-east-1''\<rparr>) None, s2) \<and>
     filter isCreateCluster (issued s1 s2) = [] \<and>
     length (filter isCreateCluster (issued (start emptyWorld) s2)) \<le> 1"
  using CreateCluster_idempotent [where v = fakeVendor and req = awsRequest
      and s = "start emptyWorld" and ?r1.0 = "\<lparr>cr_ClusterName = ''aws-us-east-1''\<rparr>"
      and ?e1.0 = None] fakeVendor_contract fake_first
  by blast

text \<open>
  C7. A \<^verbatim>\<open>CreateCluster\<close> request with an empty cluster name works under the name
  "{provider}-{region}": when the session opens, the describe request under that name
  answers "resource not found" and the create step, invoked under that name, returns the
  new cluster's descriptor carrying that name, the response holds the derived name, and
  the calls issued are that describe request and that create step.
\<close>

theorem CreateCluster_default_name:
  assumes "ClusterName req = []"
    and "NewSession v (Region req) (AccountName req) = None"
    and "DescribeClusterWithContext v (Provider req @ ''-'' @ Region req) (world s)
           = ((absent, Some (AwsErr ErrCodeResourceNotFoundException msg)), w1)"
    and "createClusterInternal v (Provider req @ ''-'' @ Region req) req w1 = ((Some c, None), w2)"
    and "cl_Name c = Some (Provider req @ ''-'' @ Region req)"
  shows "CreateCluster v req s =
           (Return (Some \<lparr>cr_ClusterName = Provider req @ ''-'' @ Region req\<rparr>) None,
            \<lparr>calls = calls s @
               [(CallDescribeCluster (Provider req @ ''-'' @ Region req),
                   Some (AwsErr ErrCodeResourceNotFoundException msg)),
                (CallCreateClusterInternal (Provider req @ ''-'' @ Region req), None)],
             world = w2\<rparr>)"
  using assms
  by (simp add: CreateCluster_def clusterNameOrDefault_def getClusterSpec_def invoke_def clusterResponse_def Let_def)

theorem CreateCluster_default_name_witness:
  "CreateCluster fakeVendor awsRequest (start emptyWorld) =
     (Return (Some \<lparr>cr_ClusterName = ''aws-us-east-1''\<rparr>) None,
      \<lparr>calls = [(CallDescribeCluster ''aws-us-east-1'',
                   Some (AwsErr ErrCodeResourceNotFoundException ''no such cluster'')),
                 (CallCreateClusterInternal ''aws-us-east-1'', None)],
       world = \<lparr>f_clusters = [''aws-us-east-1''], f_nodegroups = [], f_roles = []\<rparr>\<rparr>)"
  using CreateCluster_default_name [where v = fakeVendor and req = awsRequest
      and s = "start emptyWorld" and absent = None and msg = "''no such cluster''"
      and ?w1.0 = emptyWorld and c = "fakeCluster ''aws-us-east-1'' ''CREATING''"
      and ?w2.0 = "\<lparr>f_clusters = [''aws-us-east-1''], f_nodegroups = [], f_roles = []\<rparr>"]
  by (simp add: fakeVendor_def fakeCluster_def awsRequest_def start_def emptyWorld_def)

text \<open>
  When the describe request fails with a vendor error other than "resource not found"
  (and, as the SDK does, returns no descriptor), \<^verbatim>\<open>CreateCluster\<close> reaches its final
  statement with that nil descriptor and panics on \<^verbatim>\<open>*cluster.Name\<close>: the error is
  not returned.
\<close>

lemma CreateCluster_other_error:
  assumes "NewSession v (Region req) (AccountName req) = None"
    and "DescribeClusterWithContext v (clusterNameOrDefault req) (world s)
           = ((None, Some (AwsErr code msg)), w1)"
    and "code \<noteq> ErrCodeResourceNotFoundException"
  shows "CreateCluster v req s =
           (Panic,
            \<lparr>calls = calls s @ [(CallDescribeCluster (clusterNameOrDefault req),
                                  Some (AwsErr code msg))],
             world = w1\<rparr>)"
  using assms
  by (simp add: CreateCluster_def getClusterSpec_def invoke_def clusterResponse_def Let_def)

text \<open>
  C10 (the code departs from it). The describe request of \<^verbatim>\<open>CreateCluster\<close> is refused
  with "AccessDeniedException" and returns no descriptor: the response is built from the
  absent descriptor, and the call panics instead of returning.
\<close>

theorem CreateCluster_other_error_panics:
  "CreateCluster deniedVendor awsRequest (start emptyWorld) =
     (Panic,
      \<lparr>calls = [(CallDescribeCluster ''aws-us-east-1'',
                   Some (AwsErr ''AccessDeniedException'' ''not authorized''))],
       world = emptyWorld\<rparr>)"
  by (simp add: CreateCluster_def clusterNameOrDefault_def getClusterSpec_def invoke_def
      clusterResponse_def Let_def deniedVendor_def fakeVendor_def awsRequest_def start_def
      ErrCodeResourceNotFoundException_def)

subsection \<open>Adding a node group\<close>

text \<open>
  C3. \<^verbatim>\<open>AddNode\<close> for a name the cluster already has: when the session opens and the
  vendor's listing of the cluster's node groups holds the name of the requested node
  spec, the call fails with \<open>ERR_NODEGROUP_EXIST\<close> and a nil response, and the listing is
  the only call issued: no create request (and no other request) reaches the vendor, so
  the existing node group is left as it is.
\<close>

theorem AddNode_existing_name:
  assumes "NewSession v (Region req) (AccountName req) = None"
    and "NodeSpec req = Some nodeSpec"
    and "ListNodegroupsWithContext v (ClusterName req) (world s) = ((nodeGroupList, None), w1)"
    and "ns_Name nodeSpec \<in> set nodeGroupList"
  shows "AddNode K v req s =
           (Return None (Some ERR_NODEGROUP_EXIST),
            \<lparr>calls = calls s @ [(CallListNodegroups (ClusterName req), None)], world = w1\<rparr>)"
  using assms
  by (auto simp: AddNode_def getDefaultNode_def invoke_def split: list.splits)

theorem AddNode_existing_name_witness:
  "AddNode labelKeys fakeVendor gpuRequest (start gpuWorld) =
     (Return None (Some ERR_NODEGROUP_EXIST),
      \<lparr>calls = [(CallListNodegroups ''c1'', None)], world = gpuWorld\<rparr>)"
  using AddNode_existing_name [where K = labelKeys and v = fakeVendor and req = gpuRequest
      and s = "start gpuWorld" and nodeSpec = gpuSpec
      and nodeGroupList = "[''cpu-pool'', ''gpu-pool'']" and ?w1.0 = gpuWorld]
  by (simp add: fakeVendor_def gpuRequest_def gpuSpec_def gpuWorld_def start_def)

text \<open>
  The label map of a node group copied from a donor, key by key: every key of the caller's
  labels carries the value of the entry that the loop visited last; any other key carries
  the donor's value if the donor has the key, and the system label otherwise.
\<close>

lemma rangeLabels_result:
  "rangeLabels entries labels v =
     ((\<lambda>k. if k \<in> fst ` set entries then Some LoopVar else labels k),
      (if entries = [] then v else snd (last entries)))"
  by (induction entries arbitrary: labels v) (auto simp: fun_eq_iff)

lemma getNodeSpecFromDefault_labels:
  "in_Labels (getNodeSpecFromDefault K donor cn ns) k =
     (if k \<in> fst ` set (ns_Labels ns) then Some (snd (last (ns_Labels ns)))
      else case ng_Labels donor k of
             Some x \<Rightarrow> Some x
           | None \<Rightarrow> map_option (deref []) (systemLabels K ns k))"
proof -
  have "map_option (deref v) (systemLabels K ns k) = map_option (deref []) (systemLabels K ns k)"
    for v
    by (simp add: systemLabels_def)
  from this [of "snd (last (ns_Labels ns))"] show ?thesis
    by (auto simp: getNodeSpecFromDefault_def rangeLabels_result map_add_def
        split: option.splits)
qed

lemma inputFromCluster_labels:
  assumes "inputFromCluster K cluster nodeRole cn ns = Return (Some input) None"
  shows "in_Labels input k =
           (if k \<in> fst ` set (ns_Labels ns) then Some (snd (last (ns_Labels ns)))
            else map_option (deref []) (systemLabels K ns k))"
proof -
  have sys: "map_option (deref v) (systemLabels K ns k)
               = map_option (deref []) (systemLabels K ns k)" for v
    by (simp add: systemLabels_def)
  from assms have "in_Labels input =
      (\<lambda>k. map_option (deref (if ns_Labels ns = [] then [] else snd (last (ns_Labels ns))))
         (if k \<in> fst ` set (ns_Labels ns) then Some LoopVar else systemLabels K ns k))"
    by (auto simp: inputFromCluster_def rangeLabels_result split: option.splits)
  then show ?thesis
    using sys [of "snd (last (ns_Labels ns))"] by auto
qed

text \<open>
  C2 (the code departs from it). Donor labels {a:1, b:2}, caller labels {b:9, c:3}. When
  the loop visits b then c, the node group is created with a = 1, b = 3 and c = 3; when
  it visits c then b, with b = 9 and c = 9. Both caller keys point to the one loop
  variable, which holds the value visited last, so in either order one caller key does
  not carry the caller's value.
\<close>

theorem caller_labels_share_one_value:
  "ns_Labels gpuSpec = [(''b'', ''9''), (''c'', ''3'')] \<and>
   ng_Labels (fakeNodegroup ''cpu-pool'' ''ACTIVE'') = [''a'' \<mapsto> ''1'', ''b'' \<mapsto> ''2''] \<and>
   in_Labels (getNodeSpecFromDefault labelKeys (fakeNodegroup ''cpu-pool'' ''ACTIVE'') ''c1''
      gpuSpec) ''a'' = Some ''1'' \<and>
   in_Labels (getNodeSpecFromDefault labelKeys (fakeNodegroup ''cpu-pool'' ''ACTIVE'') ''c1''
      gpuSpec) ''b'' = Some ''3'' \<and>
   in_Labels (getNodeSpecFromDefault labelKeys (fakeNodegroup ''cpu-pool'' ''ACTIVE'') ''c1''
      gpuSpec) ''c'' = Some ''3'' \<and>
   in_Labels (getNodeSpecFromDefault labelKeys (fakeNodegroup ''cpu-pool'' ''ACTIVE'') ''c1''
      (gpuSpec\<lparr>ns_Labels := [(''c'', ''3''), (''b'', ''9'')]\<rparr>)) ''b'' = Some ''9'' \<and>
   in_Labels (getNodeSpecFromDefault labelKeys (fakeNodegroup ''cpu-pool'' ''ACTIVE'') ''c1''
      (gpuSpec\<lparr>ns_Labels := [(''c'', ''3''), (''b'', ''9'')]\<rparr>)) ''c'' = Some ''9''"
  by (simp add: getNodeSpecFromDefault_def fakeNodegroup_def systemLabels_def labelKeys_def
      gpuSpec_def)

text \<open>
  After an error of the node-group listing that is neither sentinel, \<^verbatim>\<open>AddNode\<close> goes on
  to the create request with a nil input; the listing's error is not returned.
\<close>

lemma AddNode_other_error:
  assumes "NewSession v (Region req) (AccountName req) = None"
    and "NodeSpec req = Some nodeSpec"
    and "ListNodegroupsWithContext v (ClusterName req) (world s) = ((out, Some err), w1)"
    and "err \<noteq> ERR_NODEGROUP_EXIST" and "err \<noteq> ERR_NO_NODEGROUP"
  shows "AddNode K v req s =
           createNodegroup v None
             \<lparr>calls = calls s @ [(CallListNodegroups (ClusterName req), Some err)], world = w1\<rparr>"
  using assms by (simp add: AddNode_def getDefaultNode_def invoke_def)

text \<open>
  \<^verbatim>\<open>GetToken\<close> never reads the error of its describe request: the outcome is that of
  \<^verbatim>\<open>getKubeConfig\<close> on whatever descriptor came back.
\<close>

lemma GetToken_ignores_describe_error:
  assumes "NewSession v (Region req) (AccountName req) = None"
    and "DescribeClusterWithContext v (ClusterName req) (world s) = ((cluster, Some err), w1)"
    and "getKubeConfig v cluster w1 = (Some k, None)"
  shows "fst (GetToken v req s) =
           Return (Some \<lparr>Token = BearerToken k, CaData = CAData k, Endpoint = Host k\<rparr>) None"
  using assms by (simp add: GetToken_def getClusterSpec_def invoke_def)

text \<open>
  C4 (the code departs from it). The vendor throttles the node-group listing of
  \<^verbatim>\<open>AddNode\<close>: the throttling error is dropped, a create request with a nil input is
  issued, and the caller receives that request's error instead.
\<close>

theorem AddNode_swallows_listing_error:
  "AddNode labelKeys throttledListVendor gpuRequest (start gpuWorld) =
     (Return None (Some (AwsErr ''InvalidParameter'' ''missing required field'')),
      \<lparr>calls = [(CallListNodegroups ''c1'', Some throttled),
                 (CallCreateNodegroup None,
                    Some (AwsErr ''InvalidParameter'' ''missing required field''))],
       world = gpuWorld\<rparr>)"
  by (simp add: AddNode_def getDefaultNode_def createNodegroup_def invoke_def
      throttledListVendor_def fakeVendor_def gpuRequest_def start_def throttled_def)

subsection \<open>The node-group role and its policies\<close>

lemma getNew_shape:
  assumes "getNewNodeGroupSpecFromCluster K v cn ns s = (res, s')"
  shows "\<exists>evs w. s' = \<lparr>calls = calls s @ evs, world = w\<rparr> \<and>
    ((\<exists>e. evs = [(CallDescribeCluster cn, Some e)] \<and> res = Return None (Some e)) \<or>
     (\<exists>e. evs = [(CallDescribeCluster cn, None), (CallGetRole AWS_NODE_GROUP_ROLE_NAME, Some e)] \<and>
          res = Return None (Some e) \<and>
          (\<forall>msg. e \<noteq> AwsErr ErrCodeNoSuchEntityException msg)) \<or>
     evs = [(CallDescribeCluster cn, None), (CallGetRole AWS_NODE_GROUP_ROLE_NAME, None)] \<or>
     (\<exists>msg e. evs = [(CallDescribeCluster cn, None),
                      (CallGetRole AWS_NODE_GROUP_ROLE_NAME, Some (AwsErr ErrCodeNoSuchEntityException msg)),
                      (CallCreateRole AWS_NODE_GROUP_ROLE_NAME, Some e)] \<and> res = Return None (Some e)) \<or>
     (\<exists>msg. evs = [(CallDescribeCluster cn, None),
                    (CallGetRole AWS_NODE_GROUP_ROLE_NAME, Some (AwsErr ErrCodeNoSuchEntityException msg)),
                    (CallCreateRole AWS_NODE_GROUP_ROLE_NAME, None)] \<and> res = Panic) \<or>
     (\<exists>msg rn e. evs = [(CallDescribeCluster cn, None),
                      (CallGetRole AWS_NODE_GROUP_ROLE_NAME, Some (AwsErr ErrCodeNoSuchEntityException msg)),
                      (CallCreateRole AWS_NODE_GROUP_ROLE_NAME, None),
                      (CallAttachRolePolicy rn EKS_WORKER_NODE_POLICY_ARN, Some e)] \<and>
          res = Return None (Some e)) \<or>
     (\<exists>msg rn e. evs = [(CallDescribeCluster cn, None),
                      (CallGetRole AWS_NODE_GROUP_ROLE_NAME, Some (AwsErr ErrCodeNoSuchEntityException msg)),
                      (CallCreateRole AWS_NODE_GROUP_ROLE_NAME, None),
                      (CallAttachRolePolicy rn EKS_WORKER_NODE_POLICY_ARN, None),
                      (CallAttachRolePolicy rn EKS_EC2_CONTAINER_RO_POLICY_ARN, Some e)] \<and>
          res = Return None (Some e)) \<or>
     (\<exists>msg rn e. evs = [(CallDescribeCluster cn, None),
                      (CallGetRole AWS_NODE_GROUP_ROLE_NAME, Some (AwsErr ErrCodeNoSuchEntityException msg)),
                      (CallCreateRole AWS_NODE_GROUP_ROLE_NAME, None),
                      (CallAttachRolePolicy rn EKS_WORKER_NODE_POLICY_ARN, None),
                      (CallAttachRolePolicy rn EKS_EC2_CONTAINER_RO_POLICY_ARN, None),
                      (CallAttachRolePolicy rn EKS_CNI_POLICY_ARN, Some e)] \<and>
          res = Return None (Some e)) \<or>
     (\<exists>msg rn. evs = [(CallDescribeCluster cn, None),
                      (CallGetRole AWS_NODE_GROUP_ROLE_NAME, Some (AwsErr ErrCodeNoSuchEntityException msg)),
                      (CallCreateRole AWS_NODE_GROUP_ROLE_NAME, None),
                      (CallAttachRolePolicy rn EKS_WORKER_NODE_POLICY_ARN, None),
                      (CallAttachRolePolicy rn EKS_EC2_CONTAINER_RO_POLICY_ARN, None),
                      (CallAttachRolePolicy rn EKS_CNI_POLICY_ARN, None)]))"
  using assms
  unfolding getNewNodeGroupSpecFromCluster_def createRoleOrGetExisting_def attachPolicy_def
    getClusterSpec_def invoke_def
  by (auto split: option.splits prod.splits error.splits if_splits)

lemma getNew_props:
  assumes "getNewNodeGroupSpecFromCluster K v cn ns s = (res, s')"
  shows "\<exists>evs w. s' = \<lparr>calls = calls s @ evs, world = w\<rparr> \<and>
     filter isCreateNodegroup evs = [] \<and>
     prefix (attached evs) nodePolicies \<and>
     (attached evs \<noteq> [] \<longrightarrow> (CallCreateRole AWS_NODE_GROUP_ROLE_NAME, None) \<in> set evs) \<and>
     ((CallGetRole AWS_NODE_GROUP_ROLE_NAME, None) \<in> set evs \<longrightarrow> attached evs = [] \<and> filter isCreateRole evs = []) \<and>
     (filter isCreateRole evs \<noteq> [] \<longrightarrow>
        (\<exists>msg. (CallGetRole AWS_NODE_GROUP_ROLE_NAME, Some (AwsErr ErrCodeNoSuchEntityException msg)) \<in> set evs)) \<and>
     ((CallCreateRole AWS_NODE_GROUP_ROLE_NAME, None) \<in> set evs \<and> (\<exists>input. res = Return input None) \<longrightarrow>
        attached evs = nodePolicies) \<and>
     (\<forall>role arn e. (CallAttachRolePolicy role arn, Some e) \<in> set evs \<longrightarrow>
        res = Return None (Some e))"
  using getNew_shape [OF assms]
  apply (elim exE conjE)
  subgoal for evs w
    apply (rule exI [of _ evs], rule exI [of _ w])
    apply (elim disjE exE conjE)
            apply (simp_all add: nodePolicies_def)
    done
  done

lemma getDefaultNode_trace:
  "getDefaultNode v cn nn s = (r, s1) \<Longrightarrow>
   \<exists>evs w. s1 = \<lparr>calls = calls s @ evs, world = w\<rparr> \<and>
     (\<forall>role arn x. (CallAttachRolePolicy role arn, x) \<notin> set evs) \<and>
     filter isCreateNodegroup evs = []"
  by (auto simp: getDefaultNode_def invoke_def split: option.splits prod.splits list.splits if_splits)

lemma createNodegroup_trace:
  "createNodegroup v i s = (r, s1) \<Longrightarrow>
   \<exists>e w. s1 = \<lparr>calls = calls s @ [(CallCreateNodegroup i, e)], world = w\<rparr>"
  by (auto simp: createNodegroup_def invoke_def split: option.splits prod.splits)

lemma AddNode_abort:
  assumes "AddNode K v req t = (ares, t')"
    and "(CallAttachRolePolicy role arn, Some e) \<in> set (issued t t')"
  shows "ares = Return None (Some e) \<and> filter isCreateNodegroup (issued t t') = []"
  using assms
  apply (simp add: AddNode_def split: option.splits prod.splits if_splits result.splits)
  apply (auto dest!: getDefaultNode_trace getNew_props createNodegroup_trace simp: issued_def)
  done

text \<open>
  C5. The no-node-group path of \<^verbatim>\<open>AddNode\<close> is \<^verbatim>\<open>getNewNodeGroupSpecFromCluster\<close>. In
  every run of it: the attachment requests issued are an initial part of the three
  managed policies worker-node, container-registry read-only, CNI, in that order (none is
  issued twice); an attachment is issued only if the role was created, successfully, in
  the same run; if the lookup found the role, no role is created and no policy is
  attached; a role is created only after the lookup by name answered "no such entity";
  when the role was created and the run returns an input, exactly the three attachments
  were issued; and a failed attachment makes the run return that error. In every run of
  \<^verbatim>\<open>AddNode\<close>, a failed attachment makes the call return that error without any
  node-group create request.
\<close>

theorem node_role_policies:
  "(getNewNodeGroupSpecFromCluster K v cn ns s = (res, s') \<longrightarrow>
      prefix (attached (issued s s')) nodePolicies \<and>
      (attached (issued s s') \<noteq> [] \<longrightarrow>
         (CallCreateRole AWS_NODE_GROUP_ROLE_NAME, None) \<in> set (issued s s')) \<and>
      ((CallGetRole AWS_NODE_GROUP_ROLE_NAME, None) \<in> set (issued s s') \<longrightarrow>
         attached (issued s s') = [] \<and> filter isCreateRole (issued s s') = []) \<and>
      (filter isCreateRole (issued s s') \<noteq> [] \<longrightarrow>
         (\<exists>msg. (CallGetRole AWS_NODE_GROUP_ROLE_NAME,
                   Some (AwsErr ErrCodeNoSuchEntityException msg)) \<in> set (issued s s'))) \<and>
      ((CallCreateRole AWS_NODE_GROUP_ROLE_NAME, None) \<in> set (issued s s') \<and>
       res = Return input None \<longrightarrow> attached (issued s s') = nodePolicies) \<and>
      ((CallAttachRolePolicy role arn, Some e) \<in> set (issued s s') \<longrightarrow>
         res = Return None (Some e))) \<and>
   (AddNode K v req t = (ares, t') \<and>
    (CallAttachRolePolicy role arn, Some e) \<in> set (issued t t') \<longrightarrow>
      ares = Return None (Some e) \<and> filter isCreateNodegroup (issued t t') = [])"
proof (intro conjI impI)
  assume run: "getNewNodeGroupSpecFromCluster K v cn ns s = (res, s')"
  from getNew_props [OF run] obtain evs w
    where s': "s' = \<lparr>calls = calls s @ evs, world = w\<rparr>"
      and p: "prefix (attached evs) nodePolicies"
        "attached evs \<noteq> [] \<longrightarrow> (CallCreateRole AWS_NODE_GROUP_ROLE_NAME, None) \<in> set evs"
        "(CallGetRole AWS_NODE_GROUP_ROLE_NAME, None) \<in> set evs \<longrightarrow> attached evs = [] \<and> filter isCreateRole evs = []"
        "filter isCreateRole evs \<noteq> [] \<longrightarrow>
           (\<exists>msg. (CallGetRole AWS_NODE_GROUP_ROLE_NAME, Some (AwsErr ErrCodeNoSuchEntityException msg)) \<in> set evs)"
        "(CallCreateRole AWS_NODE_GROUP_ROLE_NAME, None) \<in> set evs \<and> (\<exists>input. res = Return input None) \<longrightarrow>
           attached evs = nodePolicies"
        "\<forall>role arn e. (CallAttachRolePolicy role arn, Some e) \<in> set evs \<longrightarrow>
           res = Return None (Some e)"
    by blast
  have i: "issued s s' = evs" by (simp add: s')
  show "prefix (attached (issued s s')) nodePolicies" using p(1) i by simp
  { assume "attached (issued s s') \<noteq> []"
    then show "(CallCreateRole AWS_NODE_GROUP_ROLE_NAME, None) \<in> set (issued s s')"
      using p(2) i by simp }
  { assume "(CallGetRole AWS_NODE_GROUP_ROLE_NAME, None) \<in> set (issued s s')"
    then show "attached (issued s s') = []" and "filter isCreateRole (issued s s') = []"
      using p(3) i by simp_all }
  { assume "filter isCreateRole (issued s s') \<noteq> []"
    then show "\<exists>msg. (CallGetRole AWS_NODE_GROUP_ROLE_NAME,
                   Some (AwsErr ErrCodeNoSuchEntityException msg)) \<in> set (issued s s')"
      using p(4) i by simp }
  { assume "(CallCreateRole AWS_NODE_GROUP_ROLE_NAME, None) \<in> set (issued s s') \<and>
       res = Return input None"
    then show "attached (issued s s') = nodePolicies"
      using p(5) i by simp }
  { assume "(CallAttachRolePolicy role arn, Some e) \<in> set (issued s s')"
    then show "res = Return None (Some e)"
      using p(6) i by simp }
next
  assume a: "AddNode K v req t = (ares, t') \<and>
    (CallAttachRolePolicy role arn, Some e) \<in> set (issued t t')"
  then show "ares = Return None (Some e)" using AddNode_abort by blast
  from a show "filter isCreateNodegroup (issued t t') = []" using AddNode_abort by blast
qed

lemma fake_new_role:
  "getNewNodeGroupSpecFromCluster labelKeys fakeVendor ''c1'' gpuSpec (start freshWorld) =
     (inputFromCluster labelKeys (Some (fakeCluster ''c1'' ''ACTIVE''))
        (Some (fakeRole AWS_NODE_GROUP_ROLE_NAME)) ''c1'' gpuSpec,
      \<lparr>calls =
         [(CallDescribeCluster ''c1'', None),
          (CallGetRole AWS_NODE_GROUP_ROLE_NAME,
             Some (AwsErr ErrCodeNoSuchEntityException ''no such role'')),
          (CallCreateRole AWS_NODE_GROUP_ROLE_NAME, None),
          (CallAttachRolePolicy AWS_NODE_GROUP_ROLE_NAME EKS_WORKER_NODE_POLICY_ARN, None),
          (CallAttachRolePolicy AWS_NODE_GROUP_ROLE_NAME EKS_EC2_CONTAINER_RO_POLICY_ARN, None),
          (CallAttachRolePolicy AWS_NODE_GROUP_ROLE_NAME EKS_CNI_POLICY_ARN, None)],
       world = \<lparr>f_clusters = [''c1''], f_nodegroups = [],
                f_roles = [AWS_NODE_GROUP_ROLE_NAME]\<rparr>\<rparr>)"
  by (simp add: getNewNodeGroupSpecFromCluster_def createRoleOrGetExisting_def attachPolicy_def
      getClusterSpec_def invoke_def fakeVendor_def fakeRole_def freshWorld_def start_def)

lemma fake_old_role:
  "getNewNodeGroupSpecFromCluster labelKeys fakeVendor ''c1'' gpuSpec (start roleWorld) =
     (inputFromCluster labelKeys (Some (fakeCluster ''c1'' ''ACTIVE''))
        (Some (fakeRole AWS_NODE_GROUP_ROLE_NAME)) ''c1'' gpuSpec,
      \<lparr>calls =
         [(CallDescribeCluster ''c1'', None), (CallGetRole AWS_NODE_GROUP_ROLE_NAME, None)],
       world = roleWorld\<rparr>)"
  by (simp add: getNewNodeGroupSpecFromCluster_def createRoleOrGetExisting_def attachPolicy_def
      getClusterSpec_def invoke_def fakeVendor_def fakeRole_def roleWorld_def start_def)

lemma fake_failing_attach:
  "AddNode labelKeys failingAttachVendor gpuRequest (start freshWorld) =
     (Return None (Some throttled),
      \<lparr>calls =
         [(CallListNodegroups ''c1'', None),
          (CallDescribeCluster ''c1'', None),
          (CallGetRole AWS_NODE_GROUP_ROLE_NAME,
             Some (AwsErr ErrCodeNoSuchEntityException ''no such role'')),
          (CallCreateRole AWS_NODE_GROUP_ROLE_NAME, None),
          (CallAttachRolePolicy AWS_NODE_GROUP_ROLE_NAME EKS_WORKER_NODE_POLICY_ARN, None),
          (CallAttachRolePolicy AWS_NODE_GROUP_ROLE_NAME EKS_EC2_CONTAINER_RO_POLICY_ARN,
             Some throttled)],
       world = \<lparr>f_clusters = [''c1''], f_nodegroups = [],
                f_roles = [AWS_NODE_GROUP_ROLE_NAME]\<rparr>\<rparr>)"
  by (simp add: AddNode_def getDefaultNode_def getNewNodeGroupSpecFromCluster_def
      createRoleOrGetExisting_def attachPolicy_def getClusterSpec_def invoke_def
      failingAttachVendor_def fakeVendor_def fakeRole_def freshWorld_def gpuRequest_def
      start_def EKS_WORKER_NODE_POLICY_ARN_def EKS_EC2_CONTAINER_RO_POLICY_ARN_def)

lemma inputFromCluster_Return:
  "cl_ResourcesVpcConfig c = Some subnetIds \<Longrightarrow>
   \<exists>input. inputFromCluster K (Some c) (Some role) cn ns = Return input None"
  by (cases "rangeLabels (ns_Labels ns) (systemLabels K ns) []")
     (simp add: inputFromCluster_def)

theorem node_role_policies_witness:
  "attached (issued (start freshWorld)
      (snd (getNewNodeGroupSpecFromCluster labelKeys fakeVendor ''c1'' gpuSpec (start freshWorld))))
     = nodePolicies \<and>
   attached (issued (start roleWorld)
      (snd (getNewNodeGroupSpecFromCluster labelKeys fakeVendor ''c1'' gpuSpec (start roleWorld))))
     = [] \<and>
   (CallAttachRolePolicy AWS_NODE_GROUP_ROLE_NAME EKS_EC2_CONTAINER_RO_POLICY_ARN, Some throttled)
     \<in> set (issued (start freshWorld)
         (snd (AddNode labelKeys failingAttachVendor gpuRequest (start freshWorld)))) \<and>
   fst (AddNode labelKeys failingAttachVendor gpuRequest (start freshWorld))
     = Return None (Some throttled) \<and>
   filter isCreateNodegroup (issued (start freshWorld)
      (snd (AddNode labelKeys failingAttachVendor gpuRequest (start freshWorld)))) = []"
proof -
  let ?new = "getNewNodeGroupSpecFromCluster labelKeys fakeVendor ''c1'' gpuSpec (start freshWorld)"
  let ?old = "getNewNodeGroupSpecFromCluster labelKeys fakeVendor ''c1'' gpuSpec (start roleWorld)"
  let ?bad = "AddNode labelKeys failingAttachVendor gpuRequest (start freshWorld)"
  have new: "(CallCreateRole AWS_NODE_GROUP_ROLE_NAME, None)
               \<in> set (issued (start freshWorld) (snd ?new))"
    by (simp add: fake_new_role issued_def) (simp add: start_def)
  have "cl_ResourcesVpcConfig (fakeCluster ''c1'' ''ACTIVE'') = Some [''subnet-1'']"
    by (simp add: fakeCluster_def)
  from inputFromCluster_Return [OF this]
  obtain input where res: "fst ?new = Return input None"
    unfolding fake_new_role fst_conv by blast
  have old: "(CallGetRole AWS_NODE_GROUP_ROLE_NAME, None)
               \<in> set (issued (start roleWorld) (snd ?old))"
    by (simp add: fake_old_role issued_def) (simp add: start_def)
  have bad: "(CallAttachRolePolicy AWS_NODE_GROUP_ROLE_NAME EKS_EC2_CONTAINER_RO_POLICY_ARN,
                Some throttled) \<in> set (issued (start freshWorld) (snd ?bad))"
    by (simp add: fake_failing_attach issued_def) (simp add: start_def)
  have run_new: "?new = (fst ?new, snd ?new)" and run_old: "?old = (fst ?old, snd ?old)"
    and run_bad: "?bad = (fst ?bad, snd ?bad)"
    by simp_all
  have c1: "attached (issued (start freshWorld) (snd ?new)) = nodePolicies"
    using new res run_new
      node_role_policies [where K = labelKeys and v = fakeVendor and cn = "''c1''"
        and ns = gpuSpec and s = "start freshWorld" and res = "fst ?new" and s' = "snd ?new"
        and input = input]
    by blast
  have c2: "attached (issued (start roleWorld) (snd ?old)) = []"
    using old run_old
      node_role_policies [where K = labelKeys and v = fakeVendor and cn = "''c1''"
        and ns = gpuSpec and s = "start roleWorld" and res = "fst ?old" and s' = "snd ?old"]
    by blast
  have c3: "fst ?bad = Return None (Some throttled) \<and>
            filter isCreateNodegroup (issued (start freshWorld) (snd ?bad)) = []"
    using bad run_bad
      node_role_policies [where K = labelKeys and v = failingAttachVendor
        and req = gpuRequest and t = "start freshWorld" and ares = "fst ?bad"
        and t' = "snd ?bad" and role = AWS_NODE_GROUP_ROLE_NAME
        and arn = EKS_EC2_CONTAINER_RO_POLICY_ARN and e = throttled]
    by blast
  from c1 c2 c3 bad show ?thesis by simp
qed

subsection \<open>Listing clusters\<close>

lemma nodeGroupLoop_nil_details:
  assumes "DescribeNodegroupWithContext v cluster cNodeGroup (world s) = ((None, err), w1)"
  shows "nodeGroupLoop v cluster (cNodeGroup # rest) nodes s =
           (None, \<lparr>calls = calls s @ [(CallDescribeNodegroup cluster cNodeGroup, err)],
                   world = w1\<rparr>)"
  using assms by (simp add: invoke_def)

lemma GetClusters_all_fine:
  "fst (GetClusters fakeVendor listRequest (start twoClusters)) =
     Return (Some
       [\<lparr>cs_Name = ''c1'', cs_NodeSpec =
          [\<lparr>ns_Name = ''cpu-pool'', ns_Instance = ''t3.medium'', ns_DiskSize = 20,
            ns_GpuEnabled = False, ns_Labels = []\<rparr>,
           \<lparr>ns_Name = ''gpu-pool'', ns_Instance = ''t3.medium'', ns_DiskSize = 20,
            ns_GpuEnabled = False, ns_Labels = []\<rparr>]\<rparr>,
        \<lparr>cs_Name = ''c2'', cs_NodeSpec =
          [\<lparr>ns_Name = ''pool'', ns_Instance = ''t3.medium'', ns_DiskSize = 20,
            ns_GpuEnabled = False, ns_Labels = []\<rparr>]\<rparr>]) None"
  by (simp add: GetClusters_def invoke_def fakeVendor_def
      fakeNodegroup_def listRequest_def twoClusters_def start_def)

text \<open>
  C6 (the code departs from it). Two clusters; the describe request for the second node
  group of the first cluster is throttled. The failure is logged, the nil
  \<^verbatim>\<open>Nodegroup\<close> of the failed request is read, and \<^verbatim>\<open>GetClusters\<close> panics: nothing is
  listed, neither the first node group nor the second cluster.
\<close>

theorem GetClusters_describe_failure_panics:
  "GetClusters flakyDescribeVendor listRequest (start twoClusters) =
     (Panic,
      \<lparr>calls = [(CallListClusters, None), (CallListNodegroups ''c1'', None),
                 (CallDescribeNodegroup ''c1'' ''cpu-pool'', None),
                 (CallDescribeNodegroup ''c1'' ''gpu-pool'', Some throttled)],
       world = twoClusters\<rparr>)"
  by (simp add: GetClusters_def invoke_def flakyDescribeVendor_def fakeVendor_def
      fakeNodegroup_def listRequest_def twoClusters_def start_def)

subsection \<open>Status and deletion\<close>

text \<open>
  C9. With an open session, \<^verbatim>\<open>ClusterStatus\<close>, \<^verbatim>\<open>DeleteCluster\<close> and \<^verbatim>\<open>DeleteNode\<close>
  each issue one vendor request. When it fails, the operation returns a response whose
  error field is the message of the vendor's error, together with that error; when it
  succeeds (the vendor returns the descriptor with its status), the operation returns a
  response with an empty error field (and, for \<^verbatim>\<open>ClusterStatus\<close>, the status) and no
  error.
\<close>

theorem dual_signalling:
  assumes "NewSession v (Region req) (AccountName req) = None"
    and "NewSession v (Region nreq) (AccountName nreq) = None"
  shows
   "(DescribeClusterWithContext v (ClusterName req) (world s) = ((out, Some err), w1) \<longrightarrow>
       ClusterStatus v req s =
         (Return (Some \<lparr>csr_Status = [], csr_Error = errorString err\<rparr>) (Some err),
          \<lparr>calls = calls s @ [(CallDescribeCluster (ClusterName req), Some err)], world = w1\<rparr>)) \<and>
    (DescribeClusterWithContext v (ClusterName req) (world s) = ((Some c, None), w1) \<and>
     cl_Status c = Some st \<longrightarrow>
       ClusterStatus v req s =
         (Return (Some \<lparr>csr_Status = st, csr_Error = []\<rparr>) None,
          \<lparr>calls = calls s @ [(CallDescribeCluster (ClusterName req), None)], world = w1\<rparr>)) \<and>
    (DeleteClusterWithContext v (ClusterName req) (world s) = ((out, Some err), w1) \<longrightarrow>
       DeleteCluster v req s =
         (Return (Some \<lparr>cdr_Error = errorString err\<rparr>) (Some err),
          \<lparr>calls = calls s @ [(CallDeleteCluster (ClusterName req), Some err)], world = w1\<rparr>)) \<and>
    (DeleteClusterWithContext v (ClusterName req) (world s) = ((Some c, None), w1) \<and>
     cl_Status c = Some st \<longrightarrow>
       DeleteCluster v req s =
         (Return (Some \<lparr>cdr_Error = []\<rparr>) None,
          \<lparr>calls = calls s @ [(CallDeleteCluster (ClusterName req), None)], world = w1\<rparr>)) \<and>
    (DeleteNodegroupWithContext v (ClusterName nreq) (NodeGroupName nreq) (world s)
       = ((nout, Some err), w1) \<longrightarrow>
       DeleteNode v nreq s =
         (Return (Some \<lparr>ndr_Error = errorString err\<rparr>) (Some err),
          \<lparr>calls = calls s @
             [(CallDeleteNodegroup (ClusterName nreq) (NodeGroupName nreq), Some err)],
           world = w1\<rparr>)) \<and>
    (DeleteNodegroupWithContext v (ClusterName nreq) (NodeGroupName nreq) (world s)
       = ((Some ng, None), w1) \<and> ng_Status ng = Some st \<longrightarrow>
       DeleteNode v nreq s =
         (Return (Some \<lparr>ndr_Error = []\<rparr>) None,
          \<lparr>calls = calls s @
             [(CallDeleteNodegroup (ClusterName nreq) (NodeGroupName nreq), None)],
           world = w1\<rparr>))"
  using assms
  by (simp add: ClusterStatus_def DeleteCluster_def DeleteNode_def getClusterSpec_def invoke_def)

theorem dual_signalling_witness:
  "fst (ClusterStatus fakeVendor clusterC1 (start gpuWorld))
     = Return (Some \<lparr>csr_Status = ''ACTIVE'', csr_Error = []\<rparr>) None \<and>
   fst (ClusterStatus fakeVendor clusterC1 (start emptyWorld))
     = Return (Some \<lparr>csr_Status = [], csr_Error = errorString (notFound ''no such cluster'')\<rparr>)
         (Some (notFound ''no such cluster'')) \<and>
   fst (DeleteCluster fakeVendor clusterC1 (start gpuWorld))
     = Return (Some \<lparr>cdr_Error = []\<rparr>) None \<and>
   fst (DeleteCluster fakeVendor clusterC1 (start emptyWorld))
     = Return (Some \<lparr>cdr_Error = errorString (notFound ''no such cluster'')\<rparr>)
         (Some (notFound ''no such cluster'')) \<and>
   fst (DeleteNode fakeVendor deleteGpuPool (start gpuWorld))
     = Return (Some \<lparr>ndr_Error = []\<rparr>) None \<and>
   fst (DeleteNode fakeVendor deleteGpuPool (start emptyWorld))
     = Return (Some \<lparr>ndr_Error = errorString (notFound ''no such nodegroup'')\<rparr>)
         (Some (notFound ''no such nodegroup''))"
proof -
  have sess: "NewSession fakeVendor (Region clusterC1) (AccountName clusterC1) = None"
    "NewSession fakeVendor (Region deleteGpuPool) (AccountName deleteGpuPool) = None"
    by (simp_all add: fakeVendor_def)
  have there:
    "DescribeClusterWithContext fakeVendor (ClusterName clusterC1) (world (start gpuWorld))
       = ((Some (fakeCluster ''c1'' ''ACTIVE''), None), gpuWorld)"
    "DeleteClusterWithContext fakeVendor (ClusterName clusterC1) (world (start gpuWorld))
       = ((Some (fakeCluster ''c1'' ''DELETING''), None),
          gpuWorld\<lparr>f_clusters := removeAll ''c1'' (f_clusters gpuWorld)\<rparr>)"
    "DeleteNodegroupWithContext fakeVendor (ClusterName deleteGpuPool)
         (NodeGroupName deleteGpuPool) (world (start gpuWorld))
       = ((Some (fakeNodegroup ''gpu-pool'' ''DELETING''), None),
          gpuWorld\<lparr>f_nodegroups := removeAll (''c1'', ''gpu-pool'') (f_nodegroups gpuWorld)\<rparr>)"
    "cl_Status (fakeCluster ''c1'' ''ACTIVE'') = Some ''ACTIVE''"
    "cl_Status (fakeCluster ''c1'' ''DELETING'') = Some ''DELETING''"
    "ng_Status (fakeNodegroup ''gpu-pool'' ''DELETING'') = Some ''DELETING''"
    by (simp_all add: fakeVendor_def clusterC1_def deleteGpuPool_def gpuWorld_def start_def
        fakeCluster_def fakeNodegroup_def)
  have gone:
    "DescribeClusterWithContext fakeVendor (ClusterName clusterC1) (world (start emptyWorld))
       = ((None, Some (notFound ''no such cluster'')), emptyWorld)"
    "DeleteClusterWithContext fakeVendor (ClusterName clusterC1) (world (start emptyWorld))
       = ((None, Some (notFound ''no such cluster'')), emptyWorld)"
    "DeleteNodegroupWithContext fakeVendor (ClusterName deleteGpuPool)
         (NodeGroupName deleteGpuPool) (world (start emptyWorld))
       = ((None, Some (notFound ''no such nodegroup'')), emptyWorld)"
    by (simp_all add: fakeVendor_def clusterC1_def deleteGpuPool_def emptyWorld_def start_def
        notFound_def)
  note D = dual_signalling [OF sess]
  show ?thesis
    using D [where s = "start gpuWorld" and c = "fakeCluster ''c1'' ''ACTIVE''"
        and st = "''ACTIVE''" and ?w1.0 = gpuWorld]
      D [where s = "start gpuWorld" and c = "fakeCluster ''c1'' ''DELETING''"
        and st = "''DELETING''"
        and ?w1.0 = "gpuWorld\<lparr>f_clusters := removeAll ''c1'' (f_clusters gpuWorld)\<rparr>"]
      D [where s = "start gpuWorld" and ng = "fakeNodegroup ''gpu-pool'' ''DELETING''"
        and st = "''DELETING''"
        and ?w1.0 = "gpuWorld\<lparr>f_nodegroups :=
                       removeAll (''c1'', ''gpu-pool'') (f_nodegroups gpuWorld)\<rparr>"]
      D [where s = "start emptyWorld" and out = None and nout = None
        and err = "notFound ''no such cluster''" and ?w1.0 = emptyWorld]
      D [where s = "start emptyWorld" and out = None and nout = None
        and err = "notFound ''no such nodegroup''" and ?w1.0 = emptyWorld]
      there gone
    by simp
qed

end
